theory Spec2Isabelle
  imports Main
begin

section \<open>Python strings\<close>

text \<open>
  A Python \<open>str\<close> is modelled as a \<^typ>\<open>string\<close> whose characters are the code points
  below 256 (one \<^typ>\<open>char\<close> per code point). The three built-in methods the column
  normalisers call are written out for that range: \<open>str.strip()\<close> removes leading and
  trailing white space, \<open>str.lower()\<close> maps \<open>A-Z\<close> and the upper-case letters of the
  Latin-1 block to their lower-case forms, \<open>str.replace(old, new)\<close> with a one-character
  \<open>old\<close> rewrites every occurrence of that character.
\<close>

definition is_space :: "char \<Rightarrow> bool" where
  "is_space c = ((of_char c :: nat) \<in> set [9, 10, 11, 12, 13, 28, 29, 30, 31, 32, 133, 160])"

definition strip :: "string \<Rightarrow> string" where
  "strip s = rev (dropWhile is_space (rev (dropWhile is_space s)))"

definition is_upper :: "char \<Rightarrow> bool" where
  "is_upper c =
     (let n = (of_char c :: nat)
      in (65 \<le> n \<and> n \<le> 90) \<or> (192 \<le> n \<and> n \<le> 222 \<and> n \<noteq> 215))"

definition lower_char :: "char \<Rightarrow> char" where
  "lower_char c = (if is_upper c then char_of ((of_char c :: nat) + 32) else c)"

definition lower :: "string \<Rightarrow> string" where
  "lower s = map lower_char s"

definition replace :: "char \<Rightarrow> string \<Rightarrow> string \<Rightarrow> string" where
  "replace old new s = concat (map (\<lambda>c. if c = old then new else [c]) s)"

section \<open>Column normaliser of the ETL job (iceberg\_etl\_job.py)\<close>

text \<open>
  \<open>sanitize_name\<close> is the expression that \<open>sanitize_column_names\<close> evaluates for each
  column: \<open>old_name.strip().lower().replace(" ", "_").replace("-", "_").replace(".", "_")
  .replace("(", "").replace(")", "").replace("/", "_").replace("\\", "_")\<close>.
\<close>

definition sanitize_name :: "string \<Rightarrow> string" where
  "sanitize_name old_name =
     replace (CHR 0x5C) ''_''
       (replace (CHR ''/'') ''_''
         (replace (CHR '')'') ''''
           (replace (CHR ''('') ''''
             (replace (CHR ''.'') ''_''
               (replace (CHR ''-'') ''_''
                 (replace (CHR '' '') ''_''
                   (lower (strip old_name))))))))"

text \<open>
  \<open>sanitize_column_names\<close> walks \<open>df.columns\<close> and asks the data frame for a rename
  whenever the new name differs from the old one. The data frame belongs to Spark; the
  model returns the renames requested, in the order of the loop.
\<close>

fun sanitize_column_names :: "string list \<Rightarrow> (string \<times> string) list" where
  "sanitize_column_names [] = []"
| "sanitize_column_names (old_name # rest) =
     (let new_name = sanitize_name old_name
      in if new_name \<noteq> old_name
         then (old_name, new_name) # sanitize_column_names rest
         else sanitize_column_names rest)"

section \<open>Source schema of the validation engine (validation.py)\<close>

definition is_az09 :: "char \<Rightarrow> bool" where
  "is_az09 c =
     (let n = (of_char c :: nat)
      in (97 \<le> n \<and> n \<le> 122) \<or> (48 \<le> n \<and> n \<le> 57))"

text \<open>
  \<open>re.sub(r'[^a-z0-9]', '_', col.strip().lower())\<close>: every character outside
  \<open>a-z\<close> and \<open>0-9\<close> becomes an underscore.
\<close>

definition csv_normalize :: "string \<Rightarrow> string" where
  "csv_normalize col =
     map (\<lambda>c. if is_az09 c then c else CHR ''_'') (lower (strip col))"

text \<open>
  \<open>_get_csv_schema\<close> decodes the content and reads the first record with the \<open>csv\<close>
  module (\<open>next(reader, [])\<close>); the record read is the parameter \<open>header\<close>.
\<close>

definition get_csv_schema :: "string list \<Rightarrow> string list" where
  "get_csv_schema header = map csv_normalize header"


text \<open>Character-wise readings of the two normalisers, used to compare them.\<close>

definition san_char :: "char \<Rightarrow> string" where
  "san_char c =
     (if c \<in> set [CHR '' '', CHR ''-'', CHR ''.'', CHR ''/'', CHR 0x5C] then ''_''
      else if c \<in> set [CHR ''('', CHR '')''] then []
      else [c])"

definition san1 :: "char \<Rightarrow> char" where
  "san1 c =
     (if c \<in> set [CHR '' '', CHR ''-'', CHR ''.'', CHR ''/'', CHR 0x5C] then CHR ''_'' else c)"

definition special :: "char \<Rightarrow> bool" where
  "special c =
     (c \<in> set [CHR '' '', CHR ''-'', CHR ''.'', CHR ''/'', CHR 0x5C, CHR ''('', CHR '')''])"

section \<open>Exceptions and the query engine\<close>

text \<open>
  A raised exception is a value: the name of its class and its message (\<open>str(e)\<close>).
  A function that may raise returns \<open>py_exn + 'a\<close>, \<open>Inl\<close> for the exception.
\<close>

datatype py_exn = PyExn (exn_type: string) (exn_msg: string)

text \<open>
  The modules read their configuration from the process environment when they are
  loaded.
\<close>

record config =
  DATA_BUCKET :: string
  ATHENA_WORKGROUP :: string
  GLUE_DATABASE :: string

text \<open>
  The answers of the query engine (boto3's Athena client). \<open>get_query_execution\<close> is
  asked once per polling attempt, so its answer depends on the number of the attempt.
  A result row is its \<open>Data\<close> list; a field is its \<open>VarCharValue\<close>, \<open>None\<close> where
  the key is missing.
\<close>

record statistics =
  DataScannedInBytes :: "int option"
  EngineExecutionTimeInMillis :: "int option"

record query_execution =
  qe_State :: string
  qe_StateChangeReason :: "string option"
  qe_Statistics :: "statistics option"

record column_info =
  ci_Name :: string
  ci_Type :: string

record result_set =
  rs_ColumnInfo :: "column_info list"
  rs_Rows :: "string option list list"

record athena =
  start_query_execution :: "string \<Rightarrow> string \<Rightarrow> string \<Rightarrow> py_exn + string"
  get_query_execution :: "string \<Rightarrow> nat \<Rightarrow> py_exn + query_execution"
  get_query_results :: "string \<Rightarrow> nat option \<Rightarrow> py_exn + result_set"

text \<open>
  The polling loops call \<open>time.sleep(2)\<close>. The clock counts the calls of
  \<open>get_query_execution\<close> made and the time units slept.
\<close>

record clock =
  polls :: nat
  slept :: nat

definition clock0 :: clock where
  "clock0 = \<lparr>polls = 0, slept = 0\<rparr>"

definition sleep :: "nat \<Rightarrow> clock \<Rightarrow> clock" where
  "sleep n clk = clk\<lparr>slept := slept clk + n\<rparr>"

definition tick :: "clock \<Rightarrow> clock" where
  "tick clk = clk\<lparr>polls := Suc (polls clk)\<rparr>"

text \<open>How a \<open>for ... else\<close> polling loop ends.\<close>

datatype 'r loop_exit =
  LoopBreak query_execution
  | LoopReturn 'r
  | LoopRaise py_exn
  | LoopElse

section \<open>Ad-hoc queries (athena\_query.py)\<close>

datatype query_result =
  QueryError string string string
  | QueryData string "string list" "string list" "(string \<times> string) list list" nat int int

fun qr_status :: "query_result \<Rightarrow> string" where
  "qr_status (QueryError status error query_execution_id) = status"
| "qr_status (QueryData query_execution_id columns column_types data row_count scanned ms) =
     ''SUCCEEDED''"

text \<open>\<open>d[k] = v\<close> on a dictionary kept in insertion order.\<close>

fun dict_set :: "('k \<times> 'v) list \<Rightarrow> 'k \<Rightarrow> 'v \<Rightarrow> ('k \<times> 'v) list" where
  "dict_set [] k v = [(k, v)]"
| "dict_set ((k', v') # d) k v = (if k' = k then (k, v) # d else (k', v') # dict_set d k v)"

fun execute_loop :: "athena \<Rightarrow> string \<Rightarrow> nat \<Rightarrow> clock \<Rightarrow> query_result loop_exit \<times> clock" where
  "execute_loop ac query_execution_id 0 clk = (LoopElse, clk)"
| "execute_loop ac query_execution_id (Suc n) clk =
     (case get_query_execution ac query_execution_id (polls clk) of
        Inl e \<Rightarrow> (LoopRaise e, tick clk)
      | Inr result \<Rightarrow>
          if qe_State result = ''SUCCEEDED'' then (LoopBreak result, tick clk)
          else if qe_State result \<in> set [''FAILED'', ''CANCELLED'']
          then (LoopReturn
                  (QueryError (qe_State result)
                     (case qe_StateChangeReason result of
                        None \<Rightarrow> ''Query execution failed'' | Some reason \<Rightarrow> reason)
                     query_execution_id),
                tick clk)
          else execute_loop ac query_execution_id n (sleep 2 (tick clk)))"

fun parse_record ::
  "string list \<Rightarrow> string option list \<Rightarrow> nat \<Rightarrow> (string \<times> string) list \<Rightarrow>
   py_exn + (string \<times> string) list" where
  "parse_record columns [] j record = Inr record"
| "parse_record columns (field # rest) j record =
     (if j < length columns
      then parse_record columns rest (Suc j)
             (dict_set record (columns ! j) (case field of None \<Rightarrow> [] | Some v \<Rightarrow> v))
      else Inl (PyExn ''IndexError'' ''list index out of range''))"

fun parse_rows ::
  "string list \<Rightarrow> string option list list \<Rightarrow> py_exn + (string \<times> string) list list" where
  "parse_rows columns [] = Inr []"
| "parse_rows columns (row # rows) =
     (case parse_record columns row 0 [] of
        Inl e \<Rightarrow> Inl e
      | Inr record \<Rightarrow>
          (case parse_rows columns rows of
             Inl e \<Rightarrow> Inl e
           | Inr data \<Rightarrow> Inr (record # data)))"

definition execute_query ::
  "config \<Rightarrow> athena \<Rightarrow> string \<Rightarrow> string option \<Rightarrow> (py_exn + query_result) \<times> clock" where
  "execute_query cfg ac query database =
     (let db = (case database of
                  None \<Rightarrow> GLUE_DATABASE cfg
                | Some d \<Rightarrow> if d = [] then GLUE_DATABASE cfg else d)
      in case start_query_execution ac query db (ATHENA_WORKGROUP cfg) of
           Inl e \<Rightarrow> (Inl e, clock0)
         | Inr query_execution_id \<Rightarrow>
             (case execute_loop ac query_execution_id 60 clock0 of
                (LoopRaise e, clk) \<Rightarrow> (Inl e, clk)
              | (LoopReturn r, clk) \<Rightarrow> (Inr r, clk)
              | (LoopElse, clk) \<Rightarrow>
                  (Inr (QueryError ''TIMEOUT'' ''Query timed out after 120 seconds''
                          query_execution_id), clk)
              | (LoopBreak result, clk) \<Rightarrow>
                  (case get_query_results ac query_execution_id (Some 1000) of
                     Inl e \<Rightarrow> (Inl e, clk)
                   | Inr results \<Rightarrow>
                       (let columns = map ci_Name (rs_ColumnInfo results);
                            column_types = map ci_Type (rs_ColumnInfo results)
                        in case parse_rows columns (drop 1 (rs_Rows results)) of
                             Inl e \<Rightarrow> (Inl e, clk)
                           | Inr data \<Rightarrow>
                               (let stats = (case qe_Statistics result of
                                               None \<Rightarrow> \<lparr>DataScannedInBytes = None,
                                                         EngineExecutionTimeInMillis = None\<rparr>
                                             | Some st \<Rightarrow> st)
                                in (Inr (QueryData query_execution_id columns column_types
                                           data (length data)
                                           (case DataScannedInBytes stats of
                                              None \<Rightarrow> 0 | Some b \<Rightarrow> b)
                                           (case EngineExecutionTimeInMillis stats of
                                              None \<Rightarrow> 0 | Some t \<Rightarrow> t)),
                                    clk))))))"

section \<open>Validation engine (validation.py)\<close>

subsection \<open>Source metrics\<close>

text \<open>
  \<open>bytes.count(sub)\<close>: the number of non-overlapping occurrences of \<open>sub\<close>, found from
  left to right. The content of a file is a list of bytes, one \<^typ>\<open>char\<close> each.
\<close>

function count_sub :: "string \<Rightarrow> string \<Rightarrow> nat" where
  "count_sub sub s =
     (if sub = [] then Suc (length s)
      else if length s < length sub then 0
      else if take (length sub) s = sub then Suc (count_sub sub (drop (length sub) s))
      else count_sub sub (tl s))"
  by pat_completeness auto
termination
proof (relation "measure (\<lambda>(sub, s). length s)")
  show "wf (measure (\<lambda>(sub, s). length s))" by simp
next
  fix sub s :: string
  assume "sub \<noteq> []" "\<not> length s < length sub"
  then have "0 < length sub" "length sub \<le> length s" by simp_all
  then have "length s - length sub < length s" by linarith
  then show "((sub, drop (length sub) s), sub, s) \<in> measure (\<lambda>(sub, s). length s)"
    by simp
next
  fix sub s :: string
  assume "sub \<noteq> []" "\<not> length s < length sub"
  then have "0 < length sub" "length sub \<le> length s" by simp_all
  then have "length s - 1 < length s" by linarith
  then show "((sub, tl s), sub, s) \<in> measure (\<lambda>(sub, s). length s)"
    by simp
qed

text \<open>
  \<open>_count_csv_rows\<close> decodes the content and parses it with the \<open>csv\<close> module; the
  parser is the parameter \<open>csv_reader\<close>, from the content to the list of records.
\<close>

definition count_csv_rows :: "(string \<Rightarrow> string list list) \<Rightarrow> string \<Rightarrow> int" where
  "count_csv_rows csv_reader content =
     (let rows = csv_reader content in max 0 (int (length rows) - 1))"

definition count_source_rows :: "(string \<Rightarrow> string list list) \<Rightarrow> string \<Rightarrow> string \<Rightarrow> int" where
  "count_source_rows csv_reader content file_type =
     (if lower file_type = ''csv'' then count_csv_rows csv_reader content
      else if lower file_type \<in> set [''xlsx'', ''xls'']
      then (if CHR 0x0A \<in> set content
            then max 0 (int (count_sub [CHR 0x0A] content) - 1) else 0)
      else if lower file_type = ''parquet'' then - 1
      else if lower file_type = ''xml''
      then int (count_sub ''<record'' content) + int (count_sub ''<row'' content)
           + int (count_sub ''<item'' content)
      else if lower file_type \<in> set [''yaml'', ''yml'']
      then max 0 (int (count_sub [CHR 0x0A, CHR ''-''] content))
      else int (count_sub [CHR 0x0A] content))"

definition get_source_schema :: "(string \<Rightarrow> string list list) \<Rightarrow> string \<Rightarrow> string \<Rightarrow> string list" where
  "get_source_schema csv_reader content file_type =
     (if lower file_type = ''csv''
      then get_csv_schema (case csv_reader content of [] \<Rightarrow> [] | header # _ \<Rightarrow> header)
      else [])"

subsection \<open>Target metrics\<close>

fun run_athena_loop :: "athena \<Rightarrow> string \<Rightarrow> nat \<Rightarrow> clock \<Rightarrow> unit loop_exit \<times> clock" where
  "run_athena_loop ac query_execution_id 0 clk = (LoopElse, clk)"
| "run_athena_loop ac query_execution_id (Suc n) clk =
     (case get_query_execution ac query_execution_id (polls clk) of
        Inl e \<Rightarrow> (LoopRaise e, tick clk)
      | Inr result \<Rightarrow>
          if qe_State result \<in> set [''SUCCEEDED''] then (LoopBreak result, tick clk)
          else if qe_State result \<in> set [''FAILED'', ''CANCELLED'']
          then (LoopRaise
                  (PyExn ''Exception''
                     (''Athena query '' @ qe_State result @ '': '' @
                      (case qe_StateChangeReason result of
                         None \<Rightarrow> ''Unknown'' | Some reason \<Rightarrow> reason))),
                tick clk)
          else run_athena_loop ac query_execution_id n (sleep 2 (tick clk)))"

definition run_athena_query ::
  "config \<Rightarrow> athena \<Rightarrow> string \<Rightarrow> (py_exn + string option list list) \<times> clock" where
  "run_athena_query cfg ac query =
     (case start_query_execution ac query (GLUE_DATABASE cfg) (ATHENA_WORKGROUP cfg) of
        Inl e \<Rightarrow> (Inl e, clock0)
      | Inr query_execution_id \<Rightarrow>
          (case run_athena_loop ac query_execution_id 60 clock0 of
             (LoopRaise e, clk) \<Rightarrow> (Inl e, clk)
           | (LoopReturn u, clk) \<Rightarrow> (Inl (PyExn ''Exception'' []), clk)
           | (LoopElse, clk) \<Rightarrow> (Inl (PyExn ''Exception'' ''Athena query timed out''), clk)
           | (LoopBreak result, clk) \<Rightarrow>
               (case get_query_results ac query_execution_id None of
                  Inl e \<Rightarrow> (Inl e, clk)
                | Inr results \<Rightarrow> (Inr (rs_Rows results), clk))))"

text \<open>
  The body of the \<open>try\<close> of \<open>_get_target_row_count\<close>. Python's built-in \<open>int\<close> applied
  to a string is the parameter \<open>py_int\<close>, \<open>None\<close> where it raises \<open>ValueError\<close>.
\<close>

definition target_row_count_try ::
  "config \<Rightarrow> athena \<Rightarrow> (string \<Rightarrow> int option) \<Rightarrow> string \<Rightarrow> string \<Rightarrow> py_exn + int" where
  "target_row_count_try cfg ac py_int database table =
     (let query = ''SELECT COUNT(*) as cnt FROM \"'' @ GLUE_DATABASE cfg @ ''\".\"'' @ table @ ''\"''
      in case fst (run_athena_query cfg ac query) of
           Inl e \<Rightarrow> Inl e
         | Inr rows \<Rightarrow>
             if length rows > 1
             then (case rows ! 1 of
                     [] \<Rightarrow> Inl (PyExn ''IndexError'' ''list index out of range'')
                   | None # _ \<Rightarrow> Inl (PyExn ''KeyError'' ''VarCharValue'')
                   | Some v # _ \<Rightarrow>
                       (case py_int v of
                          None \<Rightarrow> Inl (PyExn ''ValueError'' v)
                        | Some n \<Rightarrow> Inr n))
             else Inr 0)"

definition get_target_row_count ::
  "config \<Rightarrow> athena \<Rightarrow> (string \<Rightarrow> int option) \<Rightarrow> string \<Rightarrow> string \<Rightarrow> int" where
  "get_target_row_count cfg ac py_int database table =
     (case target_row_count_try cfg ac py_int database table of
        Inl e \<Rightarrow> - 1
      | Inr n \<Rightarrow> n)"

text \<open>
  The catalog (boto3's Glue client): \<open>get_table\<close> answers with the names of the columns
  of the storage descriptor, or raises.
\<close>

record glue =
  get_table :: "string \<Rightarrow> string \<Rightarrow> py_exn + string list"
  delete_table :: "string \<Rightarrow> string \<Rightarrow> py_exn + unit"

definition get_target_schema :: "config \<Rightarrow> glue \<Rightarrow> string \<Rightarrow> string \<Rightarrow> string list" where
  "get_target_schema cfg gc database table =
     (case get_table gc (GLUE_DATABASE cfg) table of
        Inl e \<Rightarrow> []
      | Inr columns \<Rightarrow> map lower columns)"

subsection \<open>Verdict\<close>

text \<open>
  The event of \<open>validate_target\<close>, with the types of the interface: a key that is
  missing is \<open>None\<close>.
\<close>

record target_event =
  ev_database :: "string option"
  ev_table :: "string option"
  ev_source_row_count :: "int option"
  ev_source_schema :: "string list option"
  ev_source_checksum :: "string option"
  ev_load_type :: "string option"

record validation_details =
  vd_row_count_match :: bool
  vd_schema_match :: bool
  vd_checksum_match :: bool
  vd_source_row_count :: int
  vd_target_row_count :: int
  vd_source_schema :: "string list"
  vd_target_schema :: "string list"

record target_result =
  tr_target_row_count :: int
  tr_schema_match :: bool
  tr_checksum_match :: bool
  tr_validation_status :: string
  tr_validation_details :: validation_details

definition validate_target ::
  "config \<Rightarrow> athena \<Rightarrow> glue \<Rightarrow> (string \<Rightarrow> int option) \<Rightarrow> target_event \<Rightarrow>
   py_exn + target_result" where
  "validate_target cfg ac gc py_int event =
     (case ev_database event of
        None \<Rightarrow> Inl (PyExn ''KeyError'' ''database'')
      | Some database \<Rightarrow>
     (case ev_table event of
        None \<Rightarrow> Inl (PyExn ''KeyError'' ''table'')
      | Some table \<Rightarrow>
     (let source_row_count = (case ev_source_row_count event of None \<Rightarrow> - 1 | Some n \<Rightarrow> n);
          source_schema = (case ev_source_schema event of None \<Rightarrow> [] | Some ss \<Rightarrow> ss);
          source_checksum = (case ev_source_checksum event of None \<Rightarrow> [] | Some c \<Rightarrow> c);
          load_type = (case ev_load_type event of None \<Rightarrow> ''full'' | Some l \<Rightarrow> l);
          target_row_count = get_target_row_count cfg ac py_int database table;
          target_schema = get_target_schema cfg gc database table;
          row_count_match =
            (if load_type = ''full'' then source_row_count = target_row_count
             else target_row_count \<ge> source_row_count);
          schema_match =
            (if source_schema \<noteq> [] \<and> target_schema \<noteq> []
             then set (map lower source_schema) \<subseteq> set (map lower target_schema)
             else True);
          checksum_match = True;
          validation_status = (if row_count_match \<and> schema_match then ''PASSED'' else ''FAILED'');
          validation_details =
            \<lparr>vd_row_count_match = row_count_match,
             vd_schema_match = schema_match,
             vd_checksum_match = checksum_match,
             vd_source_row_count = source_row_count,
             vd_target_row_count = target_row_count,
             vd_source_schema = source_schema,
             vd_target_schema = target_schema\<rparr>
      in Inr \<lparr>tr_target_row_count = target_row_count,
              tr_schema_match = schema_match,
              tr_checksum_match = checksum_match,
              tr_validation_status = validation_status,
              tr_validation_details = validation_details\<rparr>)))"

section \<open>Teardown coordinator (delete\_handler.py)\<close>

text \<open>
  The object store (boto3's S3 client). The paginator fetches its pages one at a time,
  so each page is either the keys of its \<open>Contents\<close> (none where the key is missing) or
  the exception its fetch raises.
\<close>

record s3 =
  paginate :: "string \<Rightarrow> string \<Rightarrow> (py_exn + string list) list"
  delete_objects :: "string \<Rightarrow> string list \<Rightarrow> py_exn + unit"

fun delete_pages ::
  "config \<Rightarrow> s3 \<Rightarrow> (py_exn + string list) list \<Rightarrow> nat \<Rightarrow> py_exn + nat" where
  "delete_pages cfg sc [] deleted_count = Inr deleted_count"
| "delete_pages cfg sc (Inl e # pages) deleted_count = Inl e"
| "delete_pages cfg sc (Inr objects # pages) deleted_count =
     (if objects = [] then delete_pages cfg sc pages deleted_count
      else (case delete_objects sc (DATA_BUCKET cfg) objects of
              Inl e \<Rightarrow> Inl e
            | Inr u \<Rightarrow> delete_pages cfg sc pages (deleted_count + length objects)))"

definition delete_s3_prefix :: "config \<Rightarrow> s3 \<Rightarrow> string \<Rightarrow> py_exn + nat" where
  "delete_s3_prefix cfg sc prefix = delete_pages cfg sc (paginate sc (DATA_BUCKET cfg) prefix) 0"

fun drop_loop :: "athena \<Rightarrow> string \<Rightarrow> nat \<Rightarrow> clock \<Rightarrow> bool loop_exit \<times> clock" where
  "drop_loop ac query_id 0 clk = (LoopElse, clk)"
| "drop_loop ac query_id (Suc n) clk =
     (case get_query_execution ac query_id (polls clk) of
        Inl e \<Rightarrow> (LoopRaise e, tick clk)
      | Inr result \<Rightarrow>
          if qe_State result = ''SUCCEEDED'' then (LoopReturn True, tick clk)
          else if qe_State result \<in> set [''FAILED'', ''CANCELLED'']
          then (LoopReturn False, tick clk)
          else drop_loop ac query_id n (sleep 2 (tick clk)))"

definition drop_iceberg_table :: "config \<Rightarrow> athena \<Rightarrow> string \<Rightarrow> string \<Rightarrow> bool \<times> clock" where
  "drop_iceberg_table cfg ac database table =
     (let query = ''DROP TABLE IF EXISTS \"'' @ database @ ''\".\"'' @ table @ ''\" PURGE''
      in case start_query_execution ac query database (ATHENA_WORKGROUP cfg) of
           Inl e \<Rightarrow> (False, clock0)
         | Inr query_id \<Rightarrow>
             (case drop_loop ac query_id 30 clock0 of
                (LoopReturn b, clk) \<Rightarrow> (b, clk)
              | (LoopElse, clk) \<Rightarrow> (False, clk)
              | (LoopRaise e, clk) \<Rightarrow> (False, clk)
              | (LoopBreak result, clk) \<Rightarrow> (False, clk)))"

definition delete_glue_table :: "glue \<Rightarrow> string \<Rightarrow> string \<Rightarrow> bool" where
  "delete_glue_table gc database table =
     (case delete_table gc database table of
        Inr u \<Rightarrow> True
      | Inl e \<Rightarrow> if exn_type e = ''EntityNotFoundException'' then True else False)"

text \<open>
  The ledger (the DynamoDB table): \<open>query\<close> on the index of table names answers with
  the items found, \<open>delete_item\<close> takes the key of an item.
\<close>

record ledger_item =
  li_job_id :: string
  li_start_time :: string
  li_database_name :: "string option"

record ledger =
  query_table_name :: "string \<Rightarrow> py_exn + ledger_item list"
  delete_item :: "string \<Rightarrow> string \<Rightarrow> py_exn + unit"

fun delete_items :: "ledger \<Rightarrow> string \<Rightarrow> ledger_item list \<Rightarrow> nat \<Rightarrow> py_exn + nat" where
  "delete_items mt database [] deleted = Inr deleted"
| "delete_items mt database (item # items) deleted =
     (if li_database_name item = Some database
      then (case delete_item mt (li_job_id item) (li_start_time item) of
              Inl e \<Rightarrow> Inl e
            | Inr u \<Rightarrow> delete_items mt database items (deleted + 1))
      else delete_items mt database items deleted)"

definition delete_metadata_for_table :: "ledger \<Rightarrow> string \<Rightarrow> string \<Rightarrow> py_exn + nat" where
  "delete_metadata_for_table mt database table =
     (case query_table_name mt table of
        Inl e \<Rightarrow> Inl e
      | Inr items \<Rightarrow> delete_items mt database items 0)"

text \<open>The entries of \<open>results["steps"]\<close> and the response of the handler.\<close>

datatype step =
  S3Step string string nat string
  | CatalogStep string bool bool string
  | MetadataStep string nat string

fun step_action :: "step \<Rightarrow> string" where
  "step_action (S3Step action prefix deleted_objects status) = action"
| "step_action (CatalogStep action iceberg_dropped glue_deleted status) = action"
| "step_action (MetadataStep action deleted_records status) = action"

fun step_status :: "step \<Rightarrow> string" where
  "step_status (S3Step action prefix deleted_objects status) = status"
| "step_status (CatalogStep action iceberg_dropped glue_deleted status) = status"
| "step_status (MetadataStep action deleted_records status) = status"

record teardown_results =
  res_database :: string
  res_table :: string
  res_steps :: "step list"
  res_status :: string

datatype body = ErrorBody string | ResultsBody teardown_results

record response =
  statusCode :: nat
  resp_body :: body

definition cors_response :: "nat \<Rightarrow> body \<Rightarrow> response" where
  "cors_response status_code b = \<lparr>statusCode = status_code, resp_body = b\<rparr>"

text \<open>
  The event of the teardown handler: \<open>pathParameters\<close> is \<open>None\<close> where the key is
  missing or null, else a dictionary of strings.
\<close>

record teardown_event =
  pathParameters :: "(string \<times> string) list option"

definition teardown_handler ::
  "config \<Rightarrow> s3 \<Rightarrow> athena \<Rightarrow> glue \<Rightarrow> ledger \<Rightarrow> teardown_event \<Rightarrow> response" where
  "teardown_handler cfg sc ac gc mt event =
     (let path_params = (case pathParameters event of None \<Rightarrow> [] | Some d \<Rightarrow> d);
          database = (case map_of path_params ''database'' of None \<Rightarrow> [] | Some d \<Rightarrow> d);
          table = (case map_of path_params ''table'' of None \<Rightarrow> [] | Some t \<Rightarrow> t)
      in if database = [] \<or> table = []
         then cors_response 400 (ErrorBody ''database and table are required'')
         else
          (let raw_prefix = database @ ''/'' @ table @ ''/raw/''
           in case delete_s3_prefix cfg sc raw_prefix of
                Inl e \<Rightarrow> cors_response 500 (ErrorBody (exn_msg e))
              | Inr raw_deleted \<Rightarrow>
          (let steps1 = [S3Step ''delete_s3_raw'' raw_prefix raw_deleted ''SUCCESS''];
               warehouse_prefix = ''warehouse/'' @ database @ ''/'' @ table @ ''/''
           in case delete_s3_prefix cfg sc warehouse_prefix of
                Inl e \<Rightarrow> cors_response 500 (ErrorBody (exn_msg e))
              | Inr warehouse_deleted \<Rightarrow>
          (let steps2 = steps1 @
                 [S3Step ''delete_s3_warehouse'' warehouse_prefix warehouse_deleted ''SUCCESS''];
               table_dropped = fst (drop_iceberg_table cfg ac (GLUE_DATABASE cfg) table);
               glue_deleted = delete_glue_table gc (GLUE_DATABASE cfg) table;
               steps3 = steps2 @
                 [CatalogStep ''delete_catalog_table'' table_dropped glue_deleted
                    (if table_dropped \<or> glue_deleted then ''SUCCESS'' else ''FAILED'')]
           in case delete_metadata_for_table mt database table of
                Inl e \<Rightarrow> cors_response 500 (ErrorBody (exn_msg e))
              | Inr metadata_deleted \<Rightarrow>
          (let steps4 = steps3 @ [MetadataStep ''delete_metadata'' metadata_deleted ''SUCCESS''];
               overall_success = list_all (\<lambda>s. step_status s = ''SUCCESS'') steps4
           in cors_response 200
                (ResultsBody
                   \<lparr>res_database = database,
                    res_table = table,
                    res_steps = steps4,
                    res_status = (if overall_success then ''SUCCESS'' else ''PARTIAL'')\<rparr>))))))"

section \<open>Job ledger (metadata\_logger.py)\<close>

text \<open>
  The events and items of the logger are JSON-like values. A float is given by the text
  that \<open>str\<close> prints for it, which is all that \<open>Decimal(str(obj))\<close> reads; a dictionary
  keeps its keys in insertion order.
\<close>

datatype jval =
  JNull
  | JBool bool
  | JInt int
  | JFloat string
  | JDecimal string
  | JStr string
  | JList "jval list"
  | JDict "(string \<times> jval) list"

primrec convert_floats :: "jval \<Rightarrow> jval" where
  "convert_floats JNull = JNull"
| "convert_floats (JBool b) = JBool b"
| "convert_floats (JInt i) = JInt i"
| "convert_floats (JFloat s) = JDecimal s"
| "convert_floats (JDecimal s) = JDecimal s"
| "convert_floats (JStr s) = JStr s"
| "convert_floats (JList xs) = JList (map convert_floats xs)"
| "convert_floats (JDict kvs) = JDict (map (map_prod id convert_floats) kvs)"

text \<open>\<open>d.get(k, default)\<close>.\<close>

definition dict_get :: "(string \<times> jval) list \<Rightarrow> string \<Rightarrow> jval \<Rightarrow> jval" where
  "dict_get d k dflt = (case map_of d k of None \<Rightarrow> dflt | Some v \<Rightarrow> v)"

text \<open>Decimal text of an integer, as an f-string prints it.\<close>

function str_nat :: "nat \<Rightarrow> string" where
  "str_nat n =
     (if n < 10 then [char_of (48 + n)] else str_nat (n div 10) @ [char_of (48 + n mod 10)])"
  by pat_completeness auto
termination
  by (relation "measure id") auto

definition str_int :: "int \<Rightarrow> string" where
  "str_int i = (if i < 0 then ''-'' @ str_nat (nat (- i)) else str_nat (nat i))"

text \<open>
  What the logger takes from outside: \<open>put_item\<close> of the table, \<open>str(uuid.uuid4())\<close>,
  the successive readings of \<open>datetime.now(timezone.utc).isoformat()\<close>, Python's
  \<open>str\<close> on a value, and the date arithmetic of \<open>_calculate_duration\<close>: from the text
  given to \<open>datetime.fromisoformat\<close>, \<open>elapsed\<close> is the pair of
  \<open>int(delta.total_seconds() // 60)\<close> and \<open>int(delta.total_seconds() % 60)\<close>, or
  \<open>None\<close> where \<open>ValueError\<close> or \<open>TypeError\<close> is raised.
\<close>

record logger_env =
  put_item :: "jval \<Rightarrow> py_exn + unit"
  uuid4 :: string
  now_iso :: "nat \<Rightarrow> string"
  py_str :: "jval \<Rightarrow> string"
  elapsed :: "string \<Rightarrow> (int \<times> int) option"

text \<open>\<open>str.replace("Z", "+00:00")\<close> exists on strings only.\<close>

definition calculate_duration :: "logger_env \<Rightarrow> jval \<Rightarrow> py_exn + string" where
  "calculate_duration env start_time =
     (case start_time of
        JStr s \<Rightarrow>
          (case elapsed env (replace (CHR ''Z'') ''+00:00'' s) of
             None \<Rightarrow> Inr ''N/A''
           | Some (minutes, seconds) \<Rightarrow> Inr (str_int minutes @ ''m '' @ str_int seconds @ ''s''))
      | _ \<Rightarrow> Inl (PyExn ''AttributeError'' ''replace''))"

definition log_success :: "logger_env \<Rightarrow> (string \<times> jval) list \<Rightarrow> py_exn + jval \<times> jval" where
  "log_success env event =
     (let job_id = dict_get event ''job_id'' (JStr (uuid4 env));
          database = dict_get event ''database'' (JStr ''unknown'');
          table_name = dict_get event ''table'' (JStr ''unknown'');
          email = dict_get event ''email'' (JStr ''unknown'');
          file_name = dict_get event ''file_name'' (JStr ''unknown'');
          start_time = dict_get event ''start_time'' (JStr (now_iso env 0));
          end_time = JStr (now_iso env 1)
      in case calculate_duration env start_time of
           Inl e \<Rightarrow> Inl e
         | Inr duration \<Rightarrow>
             (case dict_get event ''validation_result'' (JDict []) of
                JDict validation_result \<Rightarrow>
                  (let source_row_count = dict_get event ''source_row_count'' (JInt 0);
                       item = convert_floats (JDict
                         [(''job_id'', job_id),
                          (''file_name'', file_name),
                          (''table_name'', table_name),
                          (''database_name'', database),
                          (''archived_by'', email),
                          (''start_time'', start_time),
                          (''end_time'', end_time),
                          (''duration'', JStr duration),
                          (''validation_status'',
                             dict_get validation_result ''validation_status'' (JStr ''PASSED'')),
                          (''source_row_count'', source_row_count),
                          (''target_row_count'',
                             dict_get validation_result ''target_row_count'' (JInt 0)),
                          (''schema_match'',
                             dict_get validation_result ''schema_match'' (JBool True)),
                          (''checksum_match'',
                             dict_get validation_result ''checksum_match'' (JBool True)),
                          (''error_message'', JStr []),
                          (''status'', JStr ''SUCCESS'')])
                   in case put_item env item of
                        Inl e \<Rightarrow> Inl e
                      | Inr u \<Rightarrow>
                          Inr (item, JDict [(''status'', JStr ''SUCCESS''), (''job_id'', job_id)]))
              | _ \<Rightarrow> Inl (PyExn ''AttributeError'' ''get'')))"

definition log_failure :: "logger_env \<Rightarrow> (string \<times> jval) list \<Rightarrow> py_exn + jval \<times> jval" where
  "log_failure env event =
     (let job_id = dict_get event ''job_id'' (JStr (uuid4 env));
          database = dict_get event ''database'' (JStr ''unknown'');
          table_name = dict_get event ''table'' (JStr ''unknown'');
          email = dict_get event ''email'' (JStr ''unknown'');
          file_name = dict_get event ''file_name'' (JStr ''unknown'');
          start_time = dict_get event ''start_time'' (JStr (now_iso env 0));
          end_time = JStr (now_iso env 1)
      in case calculate_duration env start_time of
           Inl e \<Rightarrow> Inl e
         | Inr duration \<Rightarrow>
             (case dict_get event ''error'' (JDict []) of
                JDict error \<Rightarrow>
                  (let error_message =
                         py_str env (dict_get error ''Cause''
                                       (dict_get error ''Error'' (JStr (py_str env (JDict error)))));
                       item = convert_floats (JDict
                         [(''job_id'', job_id),
                          (''file_name'', file_name),
                          (''table_name'', table_name),
                          (''database_name'', database),
                          (''archived_by'', email),
                          (''start_time'', start_time),
                          (''end_time'', end_time),
                          (''duration'', JStr duration),
                          (''validation_status'', JStr ''FAILED''),
                          (''error_message'', JStr (take 1000 error_message)),
                          (''status'', JStr ''FAILED'')])
                   in case put_item env item of
                        Inl e \<Rightarrow> Inl e
                      | Inr u \<Rightarrow>
                          Inr (item, JDict [(''status'', JStr ''FAILED''), (''job_id'', job_id),
                                            (''error'', JStr error_message)]))
              | _ \<Rightarrow> Inl (PyExn ''AttributeError'' ''get'')))"

section \<open>Observations on the polling loops\<close>

text \<open>A poll whose answer is a state that is not terminal.\<close>

definition non_terminal :: "athena \<Rightarrow> string \<Rightarrow> nat \<Rightarrow> bool" where
  "non_terminal ac qid i =
     (case get_query_execution ac qid i of
        Inl e \<Rightarrow> False
      | Inr r \<Rightarrow> qe_State r \<notin> set [''SUCCEEDED'', ''FAILED'', ''CANCELLED''])"

text \<open>
  Every loop makes at most as many polls as its budget, and sleeps 2 units after each
  poll that is not its last, or after each poll when the budget is used up.
\<close>

definition paced :: "nat \<Rightarrow> clock \<Rightarrow> clock \<Rightarrow> bool" where
  "paced n clk clk' =
     (polls clk' \<le> polls clk + n
      \<and> (slept clk' - slept clk = 2 * (polls clk' - polls clk)
         \<or> slept clk' - slept clk + 2 = 2 * (polls clk' - polls clk))
      \<and> slept clk \<le> slept clk' \<and> polls clk \<le> polls clk')"

section \<open>Scenarios\<close>

text \<open>Concrete collaborators, on which the theorems below are evaluated.\<close>

definition cfg0 :: config where
  "cfg0 = \<lparr>DATA_BUCKET = ''archive-data'', ATHENA_WORKGROUP = ''primary'',
           GLUE_DATABASE = ''archive''\<rparr>"

definition execution_in :: "string \<Rightarrow> query_execution" where
  "execution_in st = \<lparr>qe_State = st, qe_StateChangeReason = None, qe_Statistics = None\<rparr>"

text \<open>An engine that accepts every query and never leaves the state \<open>RUNNING\<close>.\<close>

definition engine_never_terminal :: athena where
  "engine_never_terminal =
     \<lparr>start_query_execution = (\<lambda>q d w. Inr ''q-1''),
      get_query_execution = (\<lambda>qid i. Inr (execution_in ''RUNNING'')),
      get_query_results = (\<lambda>qid m. Inl (PyExn ''ClientError'' ''query has not finished''))\<rparr>"

text \<open>An engine that succeeds at the first poll and answers a count query with \<open>v\<close>.\<close>

definition engine_count :: "string \<Rightarrow> athena" where
  "engine_count v =
     \<lparr>start_query_execution = (\<lambda>q d w. Inr ''q-1''),
      get_query_execution = (\<lambda>qid i. Inr (execution_in ''SUCCEEDED'')),
      get_query_results =
        (\<lambda>qid m. Inr \<lparr>rs_ColumnInfo = [\<lparr>ci_Name = ''cnt'', ci_Type = ''bigint''\<rparr>],
                        rs_Rows = [[Some ''cnt''], [Some v]]\<rparr>)\<rparr>"

text \<open>An engine whose queries run for 30 polls and have succeeded at the next one.\<close>

definition engine_late :: athena where
  "engine_late =
     \<lparr>start_query_execution = (\<lambda>q d w. Inr ''q-1''),
      get_query_execution =
        (\<lambda>qid i. Inr (execution_in (if i < 30 then ''RUNNING'' else ''SUCCEEDED''))),
      get_query_results = (\<lambda>qid m. Inr \<lparr>rs_ColumnInfo = [], rs_Rows = []\<rparr>)\<rparr>"

definition int_of_text :: "string \<Rightarrow> int option" where
  "int_of_text = map_of [(''0'', 0), (''5'', 5), (''10'', 10), (''100'', 100), (''110'', 110)]"

definition full_load_event :: target_event where
  "full_load_event =
     \<lparr>ev_database = Some ''sales'', ev_table = Some ''orders'',
      ev_source_row_count = Some 5, ev_source_schema = Some [''first_name'', ''amount''],
      ev_source_checksum = Some ''9e107d9d372bb6826bd81d3542a419d6'',
      ev_load_type = Some ''full''\<rparr>"

definition incremental_event :: target_event where
  "incremental_event =
     \<lparr>ev_database = Some ''sales'', ev_table = Some ''orders'',
      ev_source_row_count = Some 10, ev_source_schema = Some [''first_name'', ''amount''],
      ev_source_checksum = Some ''9e107d9d372bb6826bd81d3542a419d6'',
      ev_load_type = Some ''incremental''\<rparr>"

text \<open>The metrics that \<open>validate_source\<close> reports for a parquet file, in a full load.\<close>

definition parquet_event :: target_event where
  "parquet_event =
     \<lparr>ev_database = Some ''sales'', ev_table = Some ''orders'',
      ev_source_row_count = Some (count_source_rows (\<lambda>content. []) ''PAR1'' ''parquet''),
      ev_source_schema = Some (get_source_schema (\<lambda>content. []) ''PAR1'' ''parquet''),
      ev_source_checksum = Some ''9e107d9d372bb6826bd81d3542a419d6'',
      ev_load_type = Some ''full''\<rparr>"

definition catalog_columns :: "string list \<Rightarrow> glue" where
  "catalog_columns cols =
     \<lparr>get_table = (\<lambda>d t. Inr cols), delete_table = (\<lambda>d t. Inr ())\<rparr>"

definition catalog_absent :: glue where
  "catalog_absent =
     \<lparr>get_table = (\<lambda>d t. Inl (PyExn ''EntityNotFoundException'' ''Table not found'')),
      delete_table = (\<lambda>d t. Inl (PyExn ''EntityNotFoundException'' ''Table not found''))\<rparr>"

definition catalog_denied :: glue where
  "catalog_denied =
     \<lparr>get_table = (\<lambda>d t. Inl (PyExn ''ClientError'' ''AccessDeniedException'')),
      delete_table = (\<lambda>d t. Inl (PyExn ''ClientError'' ''AccessDeniedException''))\<rparr>"

definition store_one_object :: s3 where
  "store_one_object =
     \<lparr>paginate = (\<lambda>b prefix. [Inr [prefix @ ''part-0'']]),
      delete_objects = (\<lambda>b keys. Inr ())\<rparr>"

text \<open>
  Scenario A: a full load of five rows from a delimited file with the header
  \<open>["First Name", "Amount($)"]\<close>. The event carries the schema that
  \<open>_get_csv_schema\<close> derives from the header; the catalog holds the columns as the
  writer names them, followed by its three audit columns.
\<close>

definition scenario_a_event :: target_event where
  "scenario_a_event =
     \<lparr>ev_database = Some ''sales'', ev_table = Some ''orders'',
      ev_source_row_count = Some 5,
      ev_source_schema = Some (get_csv_schema [''First Name'', ''Amount($)'']),
      ev_source_checksum = Some ''9e107d9d372bb6826bd81d3542a419d6'',
      ev_load_type = Some ''full''\<rparr>"

definition scenario_a_catalog :: glue where
  "scenario_a_catalog =
     catalog_columns
       (map sanitize_name [''First Name'', ''Amount($)'']
        @ [''_etl_job_id'', ''_etl_timestamp'', ''_source_file''])"

text \<open>
  A store in which the raw prefix lists two objects and the listing of the warehouse
  prefix is refused.
\<close>

definition store_warehouse_denied :: s3 where
  "store_warehouse_denied =
     \<lparr>paginate =
        (\<lambda>b prefix. if take 10 prefix = ''warehouse/''
                      then [Inl (PyExn ''ClientError'' ''AccessDenied'')]
                      else [Inr [prefix @ ''part-0'', prefix @ ''part-1'']]),
      delete_objects = (\<lambda>b keys. Inr ())\<rparr>"

definition ledger_one_job :: ledger where
  "ledger_one_job =
     \<lparr>query_table_name =
        (\<lambda>t. Inr [\<lparr>li_job_id = ''job-1'', li_start_time = ''2024-01-01T00:00:00+00:00'',
                     li_database_name = Some ''sales''\<rparr>]),
      delete_item = (\<lambda>j st. Inr ())\<rparr>"

definition teardown_request :: teardown_event where
  "teardown_request =
     \<lparr>pathParameters = Some [(''database'', ''sales''), (''table'', ''orders'')]\<rparr>"

text \<open>The event of a job whose pipeline ran and whose validation verdict is \<open>FAILED\<close>.\<close>

definition validation_failed_event :: "(string \<times> jval) list" where
  "validation_failed_event =
     [(''action'', JStr ''log_success''),
      (''job_id'', JStr ''job-1''),
      (''database'', JStr ''sales''),
      (''table'', JStr ''orders''),
      (''email'', JStr ''ops@example.org''),
      (''file_name'', JStr ''orders.csv''),
      (''start_time'', JStr ''2024-01-01T00:00:00Z''),
      (''source_row_count'', JInt 5),
      (''validation_result'',
         JDict [(''target_row_count'', JInt 3),
                (''schema_match'', JBool True),
                (''checksum_match'', JBool True),
                (''validation_status'', JStr ''FAILED'')])]"

definition execution_failed_event :: "(string \<times> jval) list" where
  "execution_failed_event =
     [(''action'', JStr ''log_failure''),
      (''job_id'', JStr ''job-2''),
      (''database'', JStr ''sales''),
      (''table'', JStr ''orders''),
      (''start_time'', JStr ''2024-01-01T00:00:00Z''),
      (''error'',
         JDict [(''Error'', JStr ''States.TaskFailed''),
                (''Cause'', JStr ''Unsupported file type: doc'')])]"

definition logger0 :: logger_env where
  "logger0 =
     \<lparr>put_item = (\<lambda>item. Inr ()),
      uuid4 = ''00000000-0000-4000-8000-000000000000'',
      now_iso = (\<lambda>n. ''2024-01-01T00:01:05+00:00''),
      py_str = (\<lambda>v. case v of JStr s \<Rightarrow> s | _ \<Rightarrow> ''{}''),
      elapsed = (\<lambda>s. Some (1, 5))\<rparr>"

section \<open>The two column normalisers\<close>

lemma replace_append: "replace a b (s @ t) = replace a b s @ replace a b t"
  by (simp add: replace_def)

lemma replace_concat_map:
  "replace a b (concat (map f s)) = concat (map (\<lambda>c. replace a b (f c)) s)"
  by (induction s) (simp_all add: replace_append, simp add: replace_def)

lemma replace_as_concat: "replace a b s = concat (map (\<lambda>c. replace a b [c]) s)"
  by (induction s) (simp_all add: replace_def)

lemma san_char_chain:
  "replace (CHR 0x5C) ''_''
       (replace (CHR ''/'') ''_''
         (replace (CHR '')'') ''''
           (replace (CHR ''('') ''''
             (replace (CHR ''.'') ''_''
               (replace (CHR ''-'') ''_''
                 (replace (CHR '' '') ''_'' [c])))))) = san_char c"
  by (simp add: replace_def san_char_def)

lemma sanitize_name_chars: "sanitize_name x = concat (map san_char (lower (strip x)))"
proof -
  have "replace (CHR 0x5C) ''_''
       (replace (CHR ''/'') ''_''
         (replace (CHR '')'') ''''
           (replace (CHR ''('') ''''
             (replace (CHR ''.'') ''_''
               (replace (CHR ''-'') ''_''
                 (replace (CHR '' '') ''_'' s)))))) = concat (map san_char s)" for s
    by (subst replace_as_concat [of "CHR '' ''"]) (simp only: replace_concat_map san_char_chain)
  then show ?thesis by (simp add: sanitize_name_def)
qed

subsection \<open>Lower-casing\<close>

lemma lower_char_code:
  assumes "is_upper c"
  shows "(of_char (lower_char c) :: nat) = of_char c + 32"
proof -
  from assms have "(of_char c :: nat) + 32 < 256"
    by (auto simp: is_upper_def Let_def)
  with assms show ?thesis by (simp add: lower_char_def)
qed

lemma lower_char_not_upper: "\<not> is_upper (lower_char c)"
proof (cases "is_upper c")
  case True
  from lower_char_code [OF True] True show ?thesis
    by (auto simp: is_upper_def Let_def)
next
  case False
  then show ?thesis by (simp add: lower_char_def)
qed

lemma lower_char_fixed: "\<not> is_upper c \<Longrightarrow> lower_char c = c"
  by (simp add: lower_char_def)

lemma is_space_lower_char: "is_space (lower_char c) = is_space c"
proof (cases "is_upper c")
  case True
  from lower_char_code [OF True] True show ?thesis
    by (auto simp: is_upper_def is_space_def Let_def)
next
  case False
  then show ?thesis by (simp add: lower_char_def)
qed

lemma special_lower_char: "special (lower_char c) = special c"
proof (cases "is_upper c")
  case True
  from lower_char_code [OF True] True have "\<not> special (lower_char c)"
    by (auto simp: is_upper_def special_def Let_def)
  moreover from True have "\<not> special c"
    by (auto simp: is_upper_def special_def Let_def)
  ultimately show ?thesis by simp
next
  case False
  then show ?thesis by (simp add: lower_char_def)
qed

lemma paren_lower_char:
  "lower_char c = CHR ''('' \<or> lower_char c = CHR '')'' \<Longrightarrow> c = CHR ''('' \<or> c = CHR '')''"
  using special_lower_char [of c]
  by (cases "is_upper c") (auto simp: lower_char_def special_def is_upper_def Let_def)

subsection \<open>Trimming\<close>

lemma set_strip: "set (strip s) \<subseteq> set s"
proof -
  have "set (strip s) \<subseteq> set (dropWhile is_space s)"
    unfolding strip_def using set_dropWhileD by fastforce
  also have "\<dots> \<subseteq> set s" using set_dropWhileD by fastforce
  finally show ?thesis .
qed

lemma strip_prefix: "\<exists>v. dropWhile is_space s = strip s @ v"
proof -
  let ?t = "dropWhile is_space s"
  have "rev (takeWhile is_space (rev ?t) @ dropWhile is_space (rev ?t)) = rev (rev ?t)"
    by (simp only: takeWhile_dropWhile_id)
  then have "?t = strip s @ rev (takeWhile is_space (rev ?t))"
    unfolding rev_append rev_rev_ident strip_def by (rule sym)
  then show ?thesis by blast
qed

lemma strip_ends:
  assumes ne: "strip s \<noteq> []"
  shows "\<not> is_space (hd (strip s)) \<and> \<not> is_space (last (strip s))"
proof -
  obtain v where v: "dropWhile is_space s = strip s @ v" using strip_prefix by blast
  with ne have "hd (strip s) = hd (dropWhile is_space s)" by simp
  moreover from v ne have "dropWhile is_space s \<noteq> []" by auto
  ultimately have h: "\<not> is_space (hd (strip s))" by (simp add: hd_dropWhile)
  from ne have d: "dropWhile is_space (rev (dropWhile is_space s)) \<noteq> []"
    by (simp add: strip_def)
  have "last (strip s) = hd (dropWhile is_space (rev (dropWhile is_space s)))"
    using d by (simp add: strip_def last_rev)
  with d have "\<not> is_space (last (strip s))" by (simp add: hd_dropWhile)
  with h show ?thesis by simp
qed

lemma strip_fixed:
  assumes "s = [] \<or> (\<not> is_space (hd s) \<and> \<not> is_space (last s))"
  shows "strip s = s"
proof (cases "s = []")
  case True
  then show ?thesis by (simp add: strip_def)
next
  case False
  with assms have h: "\<not> is_space (hd s)" and l: "\<not> is_space (last s)" by simp_all
  from False h have 1: "dropWhile is_space s = s" by (simp add: dropWhile_eq_self_iff)
  from False l have "dropWhile is_space (rev s) = rev s"
    by (simp add: dropWhile_eq_self_iff hd_rev)
  with 1 show ?thesis by (simp add: strip_def)
qed

subsection \<open>The writer-side normaliser applied twice\<close>

lemma san_char_fixed: "\<not> special c \<Longrightarrow> san_char c = [c]"
  by (auto simp: san_char_def special_def)

lemma san_char_out: "d \<in> set (san_char c) \<Longrightarrow> \<not> special d \<and> (is_upper d \<longrightarrow> is_upper c)"
  by (auto simp: san_char_def special_def is_upper_def Let_def split: if_splits)

lemma sanitize_name_out:
  assumes "d \<in> set (sanitize_name x)"
  shows "\<not> special d \<and> \<not> is_upper d"
proof -
  from assms obtain c where c: "c \<in> set (lower (strip x))" and d: "d \<in> set (san_char c)"
    by (auto simp: sanitize_name_chars)
  from c have "\<not> is_upper c" by (auto simp: lower_def lower_char_not_upper)
  with san_char_out [OF d] show ?thesis by simp
qed

lemma sanitize_fixed:
  assumes "\<forall>d \<in> set s. \<not> special d \<and> \<not> is_upper d"
  shows "sanitize_name s = strip s"
proof -
  from assms set_strip [of s] have f: "\<forall>d \<in> set (strip s). \<not> special d \<and> \<not> is_upper d"
    by blast
  then have "lower (strip s) = strip s"
    by (simp add: lower_def lower_char_fixed map_idI)
  moreover from f have "concat (map san_char (strip s)) = strip s"
    by (induction "strip s") (simp_all add: san_char_fixed concat_map_singleton map_idI cong: map_cong)
  ultimately show ?thesis by (simp add: sanitize_name_chars)
qed

lemma sanitize_twice: "sanitize_name (sanitize_name x) = strip (sanitize_name x)"
  by (rule sanitize_fixed) (simp add: sanitize_name_out)

lemma san_char_san1: "c \<noteq> CHR ''('' \<Longrightarrow> c \<noteq> CHR '')'' \<Longrightarrow> san_char c = [san1 c]"
  by (auto simp: san_char_def san1_def)

lemma concat_san_char_map:
  "CHR ''('' \<notin> set s \<Longrightarrow> CHR '')'' \<notin> set s \<Longrightarrow> concat (map san_char s) = map san1 s"
  by (induction s) (auto simp: san_char_san1)

lemma san1_space: "\<not> is_space c \<Longrightarrow> \<not> is_space (san1 c)"
  by (auto simp: san1_def is_space_def)

lemma no_paren_lower_strip:
  assumes "CHR ''('' \<notin> set x" "CHR '')'' \<notin> set x"
  shows "CHR ''('' \<notin> set (lower (strip x)) \<and> CHR '')'' \<notin> set (lower (strip x))"
proof -
  from assms set_strip [of x] have "CHR ''('' \<notin> set (strip x)" "CHR '')'' \<notin> set (strip x)"
    by blast+
  then show ?thesis
    using paren_lower_char by (fastforce simp: lower_def)
qed

lemma sanitize_no_paren:
  assumes "CHR ''('' \<notin> set x" "CHR '')'' \<notin> set x"
  shows "sanitize_name x = map (san1 \<circ> lower_char) (strip x)"
  using no_paren_lower_strip [OF assms]
  by (simp add: sanitize_name_chars concat_san_char_map) (simp add: lower_def)

lemma strip_sanitize_no_paren:
  assumes "CHR ''('' \<notin> set x" "CHR '')'' \<notin> set x"
  shows "strip (sanitize_name x) = sanitize_name x"
proof (cases "strip x = []")
  case True
  then have "sanitize_name x = []" by (simp add: sanitize_no_paren [OF assms])
  then show ?thesis by (simp add: strip_def)
next
  case False
  from strip_ends [OF False]
  have "\<not> is_space ((san1 \<circ> lower_char) (hd (strip x)))"
       "\<not> is_space ((san1 \<circ> lower_char) (last (strip x)))"
    by (simp_all add: san1_space is_space_lower_char)
  with False show ?thesis
    by (intro strip_fixed) (simp add: sanitize_no_paren [OF assms] hd_map last_map)
qed

lemma sanitize_column_names_append:
  "sanitize_column_names (xs @ ys) = sanitize_column_names xs @ sanitize_column_names ys"
  by (induction xs) (simp_all add: Let_def)

lemma sanitize_column_names_filter:
  "sanitize_column_names xs =
     map (\<lambda>c. (c, sanitize_name c)) (filter (\<lambda>c. sanitize_name c \<noteq> c) xs)"
  by (induction xs) (simp_all add: Let_def)

subsection \<open>The two normalisers on the header of Scenario A\<close>

text \<open>
  C4. The validation engine is to derive the source schema of a delimited file with the
  normalisation of the writer, so that the names it compares are the names written.
  \<open>_get_csv_schema\<close> does not: for the column \<open>Amount($)\<close> it gives
  \<open>amount___\<close> where \<open>sanitize_column_names\<close> writes \<open>amount$\<close>. In Scenario A
  the row counts match and every source column has been written, yet the subset test of
  \<open>validate_target\<close> fails and the verdict is \<open>FAILED\<close>.
\<close>

theorem csv_schema_fails_validation:
  "csv_normalize ''Amount($)'' = ''amount___''
   \<and> sanitize_name ''Amount($)'' = ''amount$''
   \<and> validate_target cfg0 (engine_count ''5'') scenario_a_catalog int_of_text scenario_a_event =
       Inr \<lparr>tr_target_row_count = 5, tr_schema_match = False, tr_checksum_match = True,
            tr_validation_status = ''FAILED'',
            tr_validation_details =
              \<lparr>vd_row_count_match = True, vd_schema_match = False, vd_checksum_match = True,
               vd_source_row_count = 5, vd_target_row_count = 5,
               vd_source_schema = [''first_name'', ''amount___''],
               vd_target_schema =
                 [''first_name'', ''amount$'', ''_etl_job_id'', ''_etl_timestamp'',
                  ''_source_file'']\<rparr>\<rparr>"
  by code_simp

text \<open>
  C5 (as amended). For the header \<open>["First Name", "Amount($)"]\<close> the column normaliser
  asks for the renames to \<open>first_name\<close> and \<open>amount$\<close>: the parentheses are dropped, the
  dollar sign is kept.
\<close>

theorem scenario_header_normalized:
  "sanitize_column_names [''First Name'', ''Amount($)''] =
     [(''First Name'', ''first_name''), (''Amount($)'', ''amount$'')]
   \<and> map sanitize_name [''First Name'', ''Amount($)''] = [''first_name'', ''amount$'']"
  by code_simp

theorem scenario_header_counterexample:
  "map sanitize_name [''First Name'', ''Amount($)''] \<noteq> [''first_name'', ''amount'']"
  by code_simp

text \<open>
  C6 (as amended). Normalising twice gives the normalised name again exactly when the
  normalised name neither begins nor ends with white space, which is the case for every
  name without a parenthesis. The new name of a column is a function of its old name
  alone: the renames asked for a list of columns are those of its parts, one after the
  other, and each is the old name paired with its normalised form.
\<close>

theorem sanitize_name_idempotent_iff:
  "(sanitize_name (sanitize_name x) = sanitize_name x
      \<longleftrightarrow> strip (sanitize_name x) = sanitize_name x)
   \<and> (CHR ''('' \<notin> set x \<and> CHR '')'' \<notin> set x
      \<longrightarrow> sanitize_name (sanitize_name x) = sanitize_name x)
   \<and> sanitize_column_names (xs @ ys) = sanitize_column_names xs @ sanitize_column_names ys
   \<and> sanitize_column_names xs =
       map (\<lambda>c. (c, sanitize_name c)) (filter (\<lambda>c. sanitize_name c \<noteq> c) xs)"
proof (intro conjI impI)
  show "sanitize_name (sanitize_name x) = sanitize_name x
      \<longleftrightarrow> strip (sanitize_name x) = sanitize_name x"
    by (simp only: sanitize_twice)
next
  assume "CHR ''('' \<notin> set x \<and> CHR '')'' \<notin> set x"
  then have "strip (sanitize_name x) = sanitize_name x"
    by (simp add: strip_sanitize_no_paren)
  then show "sanitize_name (sanitize_name x) = sanitize_name x"
    by (simp only: sanitize_twice)
next
  show "sanitize_column_names (xs @ ys) = sanitize_column_names xs @ sanitize_column_names ys"
    by (rule sanitize_column_names_append)
next
  show "sanitize_column_names xs =
       map (\<lambda>c. (c, sanitize_name c)) (filter (\<lambda>c. sanitize_name c \<noteq> c) xs)"
    by (rule sanitize_column_names_filter)
qed

theorem sanitize_name_idempotent_witness:
  "CHR ''('' \<notin> set ''First Name'' \<and> CHR '')'' \<notin> set ''First Name''
   \<and> sanitize_name (sanitize_name ''First Name'') = sanitize_name ''First Name''
   \<and> sanitize_name ''First Name'' = ''first_name''"
proof -
  have h: "CHR ''('' \<notin> set ''First Name'' \<and> CHR '')'' \<notin> set ''First Name''"
    by simp
  have v: "sanitize_name ''First Name'' = ''first_name''" by code_simp
  from h v sanitize_name_idempotent_iff [of "''First Name''" "[]" "[]"] show ?thesis
    by blast
qed

theorem sanitize_name_idempotent_counterexample:
  "sanitize_name (sanitize_name [CHR ''x'', CHR ''('', CHR 0x09, CHR '')''])
     \<noteq> sanitize_name [CHR ''x'', CHR ''('', CHR 0x09, CHR '')'']"
  by code_simp

section \<open>The verdict of the validation engine\<close>

lemma validate_target_raises_iff:
  "(\<exists>r. validate_target cfg ac gc py_int event = Inr r)
     \<longleftrightarrow> ev_database event \<noteq> None \<and> ev_table event \<noteq> None"
  by (auto simp: validate_target_def Let_def split: option.splits)

lemma validate_target_keys:
  assumes "validate_target cfg ac gc py_int event = Inr r"
  obtains database table where
    "ev_database event = Some database" "ev_table event = Some table"
  using assms by (auto simp: validate_target_def split: option.splits)


lemma validate_target_status:
  assumes "validate_target cfg ac gc py_int event = Inr r"
  shows "tr_validation_status r =
           (if vd_row_count_match (tr_validation_details r)
               \<and> vd_schema_match (tr_validation_details r)
            then ''PASSED'' else ''FAILED'')"
    and "tr_schema_match r = vd_schema_match (tr_validation_details r)"
    and "tr_target_row_count r = vd_target_row_count (tr_validation_details r)"
    and "tr_checksum_match r"
proof -
  from assms obtain database table where
    k: "ev_database event = Some database" "ev_table event = Some table"
    by (rule validate_target_keys)
  from assms k have r: "Inr r = validate_target cfg ac gc py_int event" by simp
  from k show "tr_validation_status r =
           (if vd_row_count_match (tr_validation_details r)
               \<and> vd_schema_match (tr_validation_details r)
            then ''PASSED'' else ''FAILED'')"
    using r unfolding validate_target_def Let_def by simp
  from k show "tr_schema_match r = vd_schema_match (tr_validation_details r)"
    using r unfolding validate_target_def Let_def by simp
  from k show "tr_target_row_count r = vd_target_row_count (tr_validation_details r)"
    using r unfolding validate_target_def Let_def by simp
  from k show "tr_checksum_match r"
    using r unfolding validate_target_def Let_def by simp
qed

lemma validate_target_counts:
  assumes "validate_target cfg ac gc py_int event = Inr r"
    and k: "ev_database event = Some database" "ev_table event = Some table"
  shows "vd_row_count_match (tr_validation_details r) =
           (if (case ev_load_type event of None \<Rightarrow> ''full'' | Some l \<Rightarrow> l) = ''full''
            then vd_source_row_count (tr_validation_details r)
                   = vd_target_row_count (tr_validation_details r)
            else vd_target_row_count (tr_validation_details r)
                   \<ge> vd_source_row_count (tr_validation_details r))"
    and "vd_source_row_count (tr_validation_details r)
           = (case ev_source_row_count event of None \<Rightarrow> - 1 | Some n \<Rightarrow> n)"
    and "vd_target_row_count (tr_validation_details r)
           = get_target_row_count cfg ac py_int database table"
    and "vd_schema_match (tr_validation_details r) =
           (let source_schema = (case ev_source_schema event of None \<Rightarrow> [] | Some ss \<Rightarrow> ss);
                target_schema = get_target_schema cfg gc database table
            in if source_schema \<noteq> [] \<and> target_schema \<noteq> []
               then set (map lower source_schema) \<subseteq> set (map lower target_schema)
               else True)"
proof -
  from assms have r: "Inr r = validate_target cfg ac gc py_int event" by simp
  from k show "vd_row_count_match (tr_validation_details r) =
           (if (case ev_load_type event of None \<Rightarrow> ''full'' | Some l \<Rightarrow> l) = ''full''
            then vd_source_row_count (tr_validation_details r)
                   = vd_target_row_count (tr_validation_details r)
            else vd_target_row_count (tr_validation_details r)
                   \<ge> vd_source_row_count (tr_validation_details r))"
    using r unfolding validate_target_def Let_def by simp
  from k show "vd_source_row_count (tr_validation_details r)
           = (case ev_source_row_count event of None \<Rightarrow> - 1 | Some n \<Rightarrow> n)"
    using r unfolding validate_target_def Let_def by simp
  from k show "vd_target_row_count (tr_validation_details r)
           = get_target_row_count cfg ac py_int database table"
    using r unfolding validate_target_def Let_def by simp
  from k show "vd_schema_match (tr_validation_details r) =
           (let source_schema = (case ev_source_schema event of None \<Rightarrow> [] | Some ss \<Rightarrow> ss);
                target_schema = get_target_schema cfg gc database table
            in if source_schema \<noteq> [] \<and> target_schema \<noteq> []
               then set (map lower source_schema) \<subseteq> set (map lower target_schema)
               else True)"
    using r unfolding validate_target_def Let_def by simp
qed

text \<open>
  C1. Whenever \<open>validate_target\<close> returns, its \<open>validation_status\<close> is \<open>PASSED\<close> if
  and only if both \<open>row_count_match\<close> and \<open>schema_match\<close> are true, and \<open>FAILED\<close>
  otherwise. It returns for every event that carries a database and a table; without
  one of them it raises \<open>KeyError\<close>.
\<close>

theorem validation_status_iff:
  "(validate_target cfg ac gc py_int event = Inr r \<longrightarrow>
      (tr_validation_status r = ''PASSED''
         \<longleftrightarrow> vd_row_count_match (tr_validation_details r)
             \<and> vd_schema_match (tr_validation_details r))
      \<and> (tr_validation_status r = ''FAILED''
         \<longleftrightarrow> \<not> (vd_row_count_match (tr_validation_details r)
                \<and> vd_schema_match (tr_validation_details r)))
      \<and> tr_schema_match r = vd_schema_match (tr_validation_details r))
   \<and> ((\<exists>r. validate_target cfg ac gc py_int event = Inr r)
        \<longleftrightarrow> ev_database event \<noteq> None \<and> ev_table event \<noteq> None)"
proof (intro conjI impI)
  assume v: "validate_target cfg ac gc py_int event = Inr r"
  show "tr_validation_status r = ''PASSED''
         \<longleftrightarrow> vd_row_count_match (tr_validation_details r)
             \<and> vd_schema_match (tr_validation_details r)"
    by (simp add: validate_target_status(1) [OF v])
  show "tr_validation_status r = ''FAILED''
         \<longleftrightarrow> \<not> (vd_row_count_match (tr_validation_details r)
                \<and> vd_schema_match (tr_validation_details r))"
    by (simp add: validate_target_status(1) [OF v])
  show "tr_schema_match r = vd_schema_match (tr_validation_details r)"
    by (rule validate_target_status(2) [OF v])
next
  show "(\<exists>r. validate_target cfg ac gc py_int event = Inr r)
        \<longleftrightarrow> ev_database event \<noteq> None \<and> ev_table event \<noteq> None"
    by (rule validate_target_raises_iff)
qed

theorem validation_status_witness:
  "(\<exists>r. validate_target cfg0 (engine_count ''5'') (catalog_columns [''first_name'', ''amount'', ''_etl_job_id'']) int_of_text
           full_load_event = Inr r
        \<and> vd_row_count_match (tr_validation_details r)
        \<and> vd_schema_match (tr_validation_details r)
        \<and> tr_validation_status r = ''PASSED'')
   \<and> (\<exists>r. validate_target cfg0 (engine_count ''5'') (catalog_columns [''first_name'']) int_of_text
           full_load_event = Inr r
        \<and> vd_row_count_match (tr_validation_details r)
        \<and> \<not> vd_schema_match (tr_validation_details r)
        \<and> tr_validation_status r = ''FAILED'')
   \<and> (\<exists>r. validate_target cfg0 (engine_count ''110'') (catalog_columns [''first_name'', ''amount'', ''_etl_job_id'']) int_of_text
           full_load_event = Inr r
        \<and> \<not> vd_row_count_match (tr_validation_details r)
        \<and> vd_schema_match (tr_validation_details r)
        \<and> tr_validation_status r = ''FAILED'')
   \<and> (\<exists>r. validate_target cfg0 (engine_count ''110'') (catalog_columns [''first_name'']) int_of_text
           full_load_event = Inr r
        \<and> \<not> vd_row_count_match (tr_validation_details r)
        \<and> \<not> vd_schema_match (tr_validation_details r)
        \<and> tr_validation_status r = ''FAILED'')"
proof -
  let ?r1 = "\<lparr>tr_target_row_count = 5, tr_schema_match = True, tr_checksum_match = True,
         tr_validation_status = ''PASSED'',
         tr_validation_details =
           \<lparr>vd_row_count_match = True, vd_schema_match = True, vd_checksum_match = True,
            vd_source_row_count = 5, vd_target_row_count = 5,
            vd_source_schema = [''first_name'', ''amount''],
            vd_target_schema = [''first_name'', ''amount'', ''_etl_job_id'']\<rparr>\<rparr>"
  have e1: "validate_target cfg0 (engine_count ''5'') (catalog_columns [''first_name'', ''amount'', ''_etl_job_id'']) int_of_text
           full_load_event = Inr ?r1"
    by code_simp
  from validation_status_iff
         [of cfg0 "engine_count ''5''" "catalog_columns [''first_name'', ''amount'', ''_etl_job_id'']" int_of_text full_load_event "?r1"] e1
  have t1: "tr_validation_status ?r1 = ''PASSED''
         \<longleftrightarrow> vd_row_count_match (tr_validation_details ?r1)
             \<and> vd_schema_match (tr_validation_details ?r1)"
    by blast
  from e1 t1 have w1: "(\<exists>r. validate_target cfg0 (engine_count ''5'') (catalog_columns [''first_name'', ''amount'', ''_etl_job_id'']) int_of_text
             full_load_event = Inr r
          \<and> vd_row_count_match (tr_validation_details r)
          \<and> vd_schema_match (tr_validation_details r)
          \<and> tr_validation_status r = ''PASSED'')"
    by (intro exI [where x = "?r1"]) simp
  let ?r2 = "\<lparr>tr_target_row_count = 5, tr_schema_match = False, tr_checksum_match = True,
         tr_validation_status = ''FAILED'',
         tr_validation_details =
           \<lparr>vd_row_count_match = True, vd_schema_match = False, vd_checksum_match = True,
            vd_source_row_count = 5, vd_target_row_count = 5,
            vd_source_schema = [''first_name'', ''amount''],
            vd_target_schema = [''first_name'']\<rparr>\<rparr>"
  have e2: "validate_target cfg0 (engine_count ''5'') (catalog_columns [''first_name'']) int_of_text
           full_load_event = Inr ?r2"
    by code_simp
  from validation_status_iff
         [of cfg0 "engine_count ''5''" "catalog_columns [''first_name'']" int_of_text full_load_event "?r2"] e2
  have t2: "tr_validation_status ?r2 = ''PASSED''
         \<longleftrightarrow> vd_row_count_match (tr_validation_details ?r2)
             \<and> vd_schema_match (tr_validation_details ?r2)"
    by blast
  from e2 t2 have w2: "(\<exists>r. validate_target cfg0 (engine_count ''5'') (catalog_columns [''first_name'']) int_of_text
             full_load_event = Inr r
          \<and> vd_row_count_match (tr_validation_details r)
          \<and> \<not> vd_schema_match (tr_validation_details r)
          \<and> tr_validation_status r = ''FAILED'')"
    by (intro exI [where x = "?r2"]) simp
  let ?r3 = "\<lparr>tr_target_row_count = 110, tr_schema_match = True, tr_checksum_match = True,
         tr_validation_status = ''FAILED'',
         tr_validation_details =
           \<lparr>vd_row_count_match = False, vd_schema_match = True, vd_checksum_match = True,
            vd_source_row_count = 5, vd_target_row_count = 110,
            vd_source_schema = [''first_name'', ''amount''],
            vd_target_schema = [''first_name'', ''amount'', ''_etl_job_id'']\<rparr>\<rparr>"
  have e3: "validate_target cfg0 (engine_count ''110'') (catalog_columns [''first_name'', ''amount'', ''_etl_job_id'']) int_of_text
           full_load_event = Inr ?r3"
    by code_simp
  from validation_status_iff
         [of cfg0 "engine_count ''110''" "catalog_columns [''first_name'', ''amount'', ''_etl_job_id'']" int_of_text full_load_event "?r3"] e3
  have t3: "tr_validation_status ?r3 = ''PASSED''
         \<longleftrightarrow> vd_row_count_match (tr_validation_details ?r3)
             \<and> vd_schema_match (tr_validation_details ?r3)"
    by blast
  from e3 t3 have w3: "(\<exists>r. validate_target cfg0 (engine_count ''110'') (catalog_columns [''first_name'', ''amount'', ''_etl_job_id'']) int_of_text
             full_load_event = Inr r
          \<and> \<not> vd_row_count_match (tr_validation_details r)
          \<and> vd_schema_match (tr_validation_details r)
          \<and> tr_validation_status r = ''FAILED'')"
    by (intro exI [where x = "?r3"]) simp
  let ?r4 = "\<lparr>tr_target_row_count = 110, tr_schema_match = False, tr_checksum_match = True,
         tr_validation_status = ''FAILED'',
         tr_validation_details =
           \<lparr>vd_row_count_match = False, vd_schema_match = False, vd_checksum_match = True,
            vd_source_row_count = 5, vd_target_row_count = 110,
            vd_source_schema = [''first_name'', ''amount''],
            vd_target_schema = [''first_name'']\<rparr>\<rparr>"
  have e4: "validate_target cfg0 (engine_count ''110'') (catalog_columns [''first_name'']) int_of_text
           full_load_event = Inr ?r4"
    by code_simp
  from validation_status_iff
         [of cfg0 "engine_count ''110''" "catalog_columns [''first_name'']" int_of_text full_load_event "?r4"] e4
  have t4: "tr_validation_status ?r4 = ''PASSED''
         \<longleftrightarrow> vd_row_count_match (tr_validation_details ?r4)
             \<and> vd_schema_match (tr_validation_details ?r4)"
    by blast
  from e4 t4 have w4: "(\<exists>r. validate_target cfg0 (engine_count ''110'') (catalog_columns [''first_name'']) int_of_text
             full_load_event = Inr r
          \<and> \<not> vd_row_count_match (tr_validation_details r)
          \<and> \<not> vd_schema_match (tr_validation_details r)
          \<and> tr_validation_status r = ''FAILED'')"
    by (intro exI [where x = "?r4"]) simp
  from w1 w2 w3 w4 show ?thesis by blast
qed

text \<open>
  C3. For a \<open>full\<close> load (also when the event names no load type) \<open>row_count_match\<close> is
  true if and only if the source row count equals the target row count; for any other
  load type it is true if and only if the target row count is at least the source row
  count. The two counts are the one of the event (\<open>-1\<close> when it is missing) and the one
  of \<open>_get_target_row_count\<close>.
\<close>

theorem row_count_match_policy:
  assumes "validate_target cfg ac gc py_int event = Inr r"
  shows "(ev_load_type event = Some ''full'' \<or> ev_load_type event = None \<longrightarrow>
            (vd_row_count_match (tr_validation_details r)
               \<longleftrightarrow> vd_source_row_count (tr_validation_details r)
                   = vd_target_row_count (tr_validation_details r)))
       \<and> (ev_load_type event \<noteq> Some ''full'' \<and> ev_load_type event \<noteq> None \<longrightarrow>
            (vd_row_count_match (tr_validation_details r)
               \<longleftrightarrow> vd_target_row_count (tr_validation_details r)
                   \<ge> vd_source_row_count (tr_validation_details r)))
       \<and> vd_source_row_count (tr_validation_details r)
           = (case ev_source_row_count event of None \<Rightarrow> - 1 | Some n \<Rightarrow> n)
       \<and> (\<forall>database table.
            ev_database event = Some database \<and> ev_table event = Some table \<longrightarrow>
            vd_target_row_count (tr_validation_details r)
              = get_target_row_count cfg ac py_int database table)
       \<and> tr_target_row_count r = vd_target_row_count (tr_validation_details r)"
proof -
  from assms obtain database table where
    k: "ev_database event = Some database" "ev_table event = Some table"
    by (rule validate_target_keys)
  note c = validate_target_counts [OF assms k]
  have 1: "ev_load_type event = Some ''full'' \<or> ev_load_type event = None \<longrightarrow>
            (vd_row_count_match (tr_validation_details r)
               \<longleftrightarrow> vd_source_row_count (tr_validation_details r)
                   = vd_target_row_count (tr_validation_details r))"
    by (auto simp: c(1))
  have 2: "ev_load_type event \<noteq> Some ''full'' \<and> ev_load_type event \<noteq> None \<longrightarrow>
            (vd_row_count_match (tr_validation_details r)
               \<longleftrightarrow> vd_target_row_count (tr_validation_details r)
                   \<ge> vd_source_row_count (tr_validation_details r))"
    by (auto simp: c(1))
  have 4: "\<forall>database table.
            ev_database event = Some database \<and> ev_table event = Some table \<longrightarrow>
            vd_target_row_count (tr_validation_details r)
              = get_target_row_count cfg ac py_int database table"
    using k c(3) by simp
  from 1 2 c(2) 4 validate_target_status(3) [OF assms] show ?thesis by blast
qed

theorem row_count_match_witness:
  "(\<exists>r. validate_target cfg0 (engine_count ''110'')
           (catalog_columns [''first_name'', ''amount'', ''_etl_job_id'']) int_of_text
           incremental_event = Inr r
        \<and> vd_source_row_count (tr_validation_details r) = 10
        \<and> tr_target_row_count r = 110
        \<and> vd_row_count_match (tr_validation_details r))
   \<and> (\<exists>r. validate_target cfg0 (engine_count ''110'')
           (catalog_columns [''first_name'', ''amount'', ''_etl_job_id'']) int_of_text
           full_load_event = Inr r
        \<and> vd_source_row_count (tr_validation_details r) = 5
        \<and> tr_target_row_count r = 110
        \<and> \<not> vd_row_count_match (tr_validation_details r))"
proof -
  let ?gc = "catalog_columns [''first_name'', ''amount'', ''_etl_job_id'']"
  let ?ri = "\<lparr>tr_target_row_count = 110, tr_schema_match = True, tr_checksum_match = True,
         tr_validation_status = ''PASSED'',
         tr_validation_details =
           \<lparr>vd_row_count_match = True, vd_schema_match = True, vd_checksum_match = True,
            vd_source_row_count = 10, vd_target_row_count = 110,
            vd_source_schema = [''first_name'', ''amount''],
            vd_target_schema = [''first_name'', ''amount'', ''_etl_job_id'']\<rparr>\<rparr>"
  let ?rf = "\<lparr>tr_target_row_count = 110, tr_schema_match = True, tr_checksum_match = True,
         tr_validation_status = ''FAILED'',
         tr_validation_details =
           \<lparr>vd_row_count_match = False, vd_schema_match = True, vd_checksum_match = True,
            vd_source_row_count = 5, vd_target_row_count = 110,
            vd_source_schema = [''first_name'', ''amount''],
            vd_target_schema = [''first_name'', ''amount'', ''_etl_job_id'']\<rparr>\<rparr>"
  have ei: "validate_target cfg0 (engine_count ''110'') ?gc int_of_text incremental_event
              = Inr ?ri"
    by code_simp
  have ef: "validate_target cfg0 (engine_count ''110'') ?gc int_of_text full_load_event
              = Inr ?rf"
    by code_simp
  have li: "ev_load_type incremental_event \<noteq> Some ''full''
            \<and> ev_load_type incremental_event \<noteq> None"
    by (simp add: incremental_event_def)
  have lf: "ev_load_type full_load_event = Some ''full''"
    by (simp add: full_load_event_def)
  from row_count_match_policy [OF ei] li
  have ti: "vd_row_count_match (tr_validation_details ?ri)
              \<longleftrightarrow> vd_target_row_count (tr_validation_details ?ri)
                  \<ge> vd_source_row_count (tr_validation_details ?ri)"
    by blast
  from row_count_match_policy [OF ef] lf
  have tf: "vd_row_count_match (tr_validation_details ?rf)
              \<longleftrightarrow> vd_source_row_count (tr_validation_details ?rf)
                  = vd_target_row_count (tr_validation_details ?rf)"
    by blast
  from ei ti have wi: "\<exists>r. validate_target cfg0 (engine_count ''110'') ?gc int_of_text
           incremental_event = Inr r
        \<and> vd_source_row_count (tr_validation_details r) = 10
        \<and> tr_target_row_count r = 110
        \<and> vd_row_count_match (tr_validation_details r)"
    by (intro exI [where x = "?ri"]) simp
  from ef tf have wf: "\<exists>r. validate_target cfg0 (engine_count ''110'') ?gc int_of_text
           full_load_event = Inr r
        \<and> vd_source_row_count (tr_validation_details r) = 5
        \<and> tr_target_row_count r = 110
        \<and> \<not> vd_row_count_match (tr_validation_details r)"
    by (intro exI [where x = "?rf"]) simp
  from wi wf show ?thesis by blast
qed

text \<open>
  C10. When the count query raises or fails (the body of the \<open>try\<close> raises),
  \<open>validate_target\<close> goes on with \<open>-1\<close> as the target row count and returns. For a
  full load whose source row count is the parquet sentinel, \<open>row_count_match\<close> is then
  true when the count query failed and false when it gave a count that is not negative;
  with the empty source schema of a parquet file the verdict is \<open>PASSED\<close> in the first
  case and \<open>FAILED\<close> in the second.
\<close>

theorem count_failure_passes:
  assumes "ev_database event = Some database" and "ev_table event = Some table"
  shows "\<exists>r. validate_target cfg ac gc py_int event = Inr r
      \<and> (\<forall>e. target_row_count_try cfg ac py_int database table = Inl e
             \<longrightarrow> tr_target_row_count r = - 1)
      \<and> (ev_source_row_count event = Some (count_source_rows csv_reader content ''parquet'')
           \<and> (ev_load_type event = Some ''full'' \<or> ev_load_type event = None)
         \<longrightarrow> (\<forall>e. target_row_count_try cfg ac py_int database table = Inl e
                  \<longrightarrow> vd_row_count_match (tr_validation_details r))
           \<and> (\<forall>n. target_row_count_try cfg ac py_int database table = Inr n \<and> 0 \<le> n
                  \<longrightarrow> \<not> vd_row_count_match (tr_validation_details r))
           \<and> (ev_source_schema event = Some (get_source_schema csv_reader content ''parquet'')
               \<longrightarrow> (\<forall>e. target_row_count_try cfg ac py_int database table = Inl e
                        \<longrightarrow> tr_validation_status r = ''PASSED'')
                 \<and> (\<forall>n. target_row_count_try cfg ac py_int database table = Inr n \<and> 0 \<le> n
                        \<longrightarrow> tr_validation_status r = ''FAILED'')))"
proof -
  from assms have "\<exists>r. validate_target cfg ac gc py_int event = Inr r"
    by (simp add: validate_target_raises_iff)
  then obtain r where r: "validate_target cfg ac gc py_int event = Inr r" by blast
  note c = validate_target_counts [OF r assms]
  note s = validate_target_status [OF r]
  have pq: "count_source_rows csv_reader content ''parquet'' = - 1"
    by (simp add: count_source_rows_def lower_def lower_char_def is_upper_def Let_def)
  have ps: "get_source_schema csv_reader content ''parquet'' = []"
    by (simp add: get_source_schema_def lower_def lower_char_def is_upper_def Let_def)
  have raised: "tr_target_row_count r = - 1"
    if "target_row_count_try cfg ac py_int database table = Inl e" for e
    using that s(3) c(3) by (simp add: get_target_row_count_def)
  have counted: "tr_target_row_count r = n"
    if "target_row_count_try cfg ac py_int database table = Inr n" for n
    using that s(3) c(3) by (simp add: get_target_row_count_def)
  have rcm: "vd_row_count_match (tr_validation_details r) \<longleftrightarrow> tr_target_row_count r = - 1"
    if "ev_source_row_count event = Some (count_source_rows csv_reader content ''parquet'')"
       "ev_load_type event = Some ''full'' \<or> ev_load_type event = None"
    using that c(1) c(2) s(3) by (auto simp: pq)
  have sm: "vd_schema_match (tr_validation_details r)"
    if "ev_source_schema event = Some (get_source_schema csv_reader content ''parquet'')"
    using that c(4) by (simp add: ps)
  have A: "\<forall>e. target_row_count_try cfg ac py_int database table = Inl e
             \<longrightarrow> tr_target_row_count r = - 1"
    using raised by blast
  have B: "ev_source_row_count event = Some (count_source_rows csv_reader content ''parquet'')
           \<and> (ev_load_type event = Some ''full'' \<or> ev_load_type event = None)
         \<longrightarrow> (\<forall>e. target_row_count_try cfg ac py_int database table = Inl e
                  \<longrightarrow> vd_row_count_match (tr_validation_details r))
           \<and> (\<forall>n. target_row_count_try cfg ac py_int database table = Inr n \<and> 0 \<le> n
                  \<longrightarrow> \<not> vd_row_count_match (tr_validation_details r))
           \<and> (ev_source_schema event = Some (get_source_schema csv_reader content ''parquet'')
               \<longrightarrow> (\<forall>e. target_row_count_try cfg ac py_int database table = Inl e
                        \<longrightarrow> tr_validation_status r = ''PASSED'')
                 \<and> (\<forall>n. target_row_count_try cfg ac py_int database table = Inr n \<and> 0 \<le> n
                        \<longrightarrow> tr_validation_status r = ''FAILED''))"
  proof (intro impI conjI allI)
    fix e
    assume h: "ev_source_row_count event = Some (count_source_rows csv_reader content ''parquet'')
           \<and> (ev_load_type event = Some ''full'' \<or> ev_load_type event = None)"
      and t: "target_row_count_try cfg ac py_int database table = Inl e"
    from h rcm raised [OF t] show "vd_row_count_match (tr_validation_details r)" by blast
  next
    fix n
    assume h: "ev_source_row_count event = Some (count_source_rows csv_reader content ''parquet'')
           \<and> (ev_load_type event = Some ''full'' \<or> ev_load_type event = None)"
      and t: "target_row_count_try cfg ac py_int database table = Inr n \<and> 0 \<le> n"
    from t counted have "tr_target_row_count r \<noteq> - 1" by auto
    with h rcm show "\<not> vd_row_count_match (tr_validation_details r)" by blast
  next
    fix e
    assume h: "ev_source_row_count event = Some (count_source_rows csv_reader content ''parquet'')
           \<and> (ev_load_type event = Some ''full'' \<or> ev_load_type event = None)"
      and sc: "ev_source_schema event = Some (get_source_schema csv_reader content ''parquet'')"
      and t: "target_row_count_try cfg ac py_int database table = Inl e"
    from h rcm raised [OF t] have "vd_row_count_match (tr_validation_details r)" by blast
    with sm [OF sc] s(1) show "tr_validation_status r = ''PASSED''" by simp
  next
    fix n
    assume h: "ev_source_row_count event = Some (count_source_rows csv_reader content ''parquet'')
           \<and> (ev_load_type event = Some ''full'' \<or> ev_load_type event = None)"
      and t: "target_row_count_try cfg ac py_int database table = Inr n \<and> 0 \<le> n"
    from t counted have "tr_target_row_count r \<noteq> - 1" by auto
    with h rcm have "\<not> vd_row_count_match (tr_validation_details r)" by blast
    with s(1) show "tr_validation_status r = ''FAILED''" by simp
  qed
  show ?thesis
  proof (intro exI [where x = r] conjI)
    show "validate_target cfg ac gc py_int event = Inr r" by (rule r)
    show "\<forall>e. target_row_count_try cfg ac py_int database table = Inl e
             \<longrightarrow> tr_target_row_count r = - 1"
      by (rule A)
  qed (rule B)
qed

theorem count_failure_passes_witness:
  "(\<exists>e. target_row_count_try cfg0 engine_never_terminal int_of_text ''sales'' ''orders'' = Inl e)
   \<and> (\<exists>r. validate_target cfg0 engine_never_terminal (catalog_columns [''first_name''])
             int_of_text parquet_event = Inr r
          \<and> tr_target_row_count r = - 1
          \<and> vd_row_count_match (tr_validation_details r)
          \<and> tr_validation_status r = ''PASSED'')
   \<and> target_row_count_try cfg0 (engine_count ''5'') int_of_text ''sales'' ''orders'' = Inr 5
   \<and> (\<exists>r. validate_target cfg0 (engine_count ''5'') (catalog_columns [''first_name''])
             int_of_text parquet_event = Inr r
          \<and> \<not> vd_row_count_match (tr_validation_details r)
          \<and> tr_validation_status r = ''FAILED'')"
proof -
  let ?gc = "catalog_columns [''first_name'']"
  have d: "ev_database parquet_event = Some ''sales''" "ev_table parquet_event = Some ''orders''"
    by (simp_all add: parquet_event_def)
  have h: "ev_source_row_count parquet_event
             = Some (count_source_rows (\<lambda>content. []) ''PAR1'' ''parquet'')"
          "ev_load_type parquet_event = Some ''full''"
          "ev_source_schema parquet_event
             = Some (get_source_schema (\<lambda>content. []) ''PAR1'' ''parquet'')"
    by (simp_all add: parquet_event_def)
  have t1: "target_row_count_try cfg0 engine_never_terminal int_of_text ''sales'' ''orders''
              = Inl (PyExn ''Exception'' ''Athena query timed out'')"
    by code_simp
  have t2: "target_row_count_try cfg0 (engine_count ''5'') int_of_text ''sales'' ''orders'' = Inr 5"
    by code_simp
  from count_failure_passes
         [OF d, of cfg0 engine_never_terminal ?gc int_of_text "\<lambda>content. []" "''PAR1''"] h t1
  have w1: "\<exists>r. validate_target cfg0 engine_never_terminal ?gc int_of_text parquet_event = Inr r
          \<and> tr_target_row_count r = - 1
          \<and> vd_row_count_match (tr_validation_details r)
          \<and> tr_validation_status r = ''PASSED''"
    by blast
  from count_failure_passes
         [OF d, of cfg0 "engine_count ''5''" ?gc int_of_text "\<lambda>content. []" "''PAR1''"] h t2
  have w2: "\<exists>r. validate_target cfg0 (engine_count ''5'') ?gc int_of_text parquet_event = Inr r
          \<and> \<not> vd_row_count_match (tr_validation_details r)
          \<and> tr_validation_status r = ''FAILED''"
    by force
  from t1 t2 w1 w2 show ?thesis by blast
qed

section \<open>The polling loops\<close>

lemma tick_sleep_fields:
  "polls (sleep k (tick clk)) = Suc (polls clk)" "slept (sleep k (tick clk)) = slept clk + k"
  "polls (tick clk) = Suc (polls clk)" "slept (tick clk) = slept clk"
  by (simp_all add: sleep_def tick_def)

lemma execute_loop_exhausted:
  "(\<And>i. i < n \<Longrightarrow> non_terminal ac qid (polls clk + i)) \<Longrightarrow>
   execute_loop ac qid n clk = (LoopElse, clk\<lparr>polls := polls clk + n, slept := slept clk + 2 * n\<rparr>)"
proof (induction n arbitrary: clk)
  case 0
  then show ?case by simp
next
  case (Suc n)
  from Suc.prems [of 0] have h: "non_terminal ac qid (polls clk)" by simp
  have "non_terminal ac qid (polls (sleep 2 (tick clk)) + i)" if "i < n" for i
    using Suc.prems [of "Suc i"] that by (simp add: tick_sleep_fields)
  then have "execute_loop ac qid n (sleep 2 (tick clk)) =
      (LoopElse, (sleep 2 (tick clk))\<lparr>polls := polls (sleep 2 (tick clk)) + n,
                                      slept := slept (sleep 2 (tick clk)) + 2 * n\<rparr>)"
    by (rule Suc.IH)
  with h show ?case
    by (auto simp: non_terminal_def tick_sleep_fields sleep_def tick_def split: sum.splits)
qed

lemma run_athena_loop_exhausted:
  "(\<And>i. i < n \<Longrightarrow> non_terminal ac qid (polls clk + i)) \<Longrightarrow>
   run_athena_loop ac qid n clk = (LoopElse, clk\<lparr>polls := polls clk + n, slept := slept clk + 2 * n\<rparr>)"
proof (induction n arbitrary: clk)
  case 0
  then show ?case by simp
next
  case (Suc n)
  from Suc.prems [of 0] have h: "non_terminal ac qid (polls clk)" by simp
  have "non_terminal ac qid (polls (sleep 2 (tick clk)) + i)" if "i < n" for i
    using Suc.prems [of "Suc i"] that by (simp add: tick_sleep_fields)
  then have "run_athena_loop ac qid n (sleep 2 (tick clk)) =
      (LoopElse, (sleep 2 (tick clk))\<lparr>polls := polls (sleep 2 (tick clk)) + n,
                                      slept := slept (sleep 2 (tick clk)) + 2 * n\<rparr>)"
    by (rule Suc.IH)
  with h show ?case
    by (auto simp: non_terminal_def tick_sleep_fields sleep_def tick_def split: sum.splits)
qed

lemma drop_loop_exhausted:
  "(\<And>i. i < n \<Longrightarrow> non_terminal ac qid (polls clk + i)) \<Longrightarrow>
   drop_loop ac qid n clk = (LoopElse, clk\<lparr>polls := polls clk + n, slept := slept clk + 2 * n\<rparr>)"
proof (induction n arbitrary: clk)
  case 0
  then show ?case by simp
next
  case (Suc n)
  from Suc.prems [of 0] have h: "non_terminal ac qid (polls clk)" by simp
  have "non_terminal ac qid (polls (sleep 2 (tick clk)) + i)" if "i < n" for i
    using Suc.prems [of "Suc i"] that by (simp add: tick_sleep_fields)
  then have "drop_loop ac qid n (sleep 2 (tick clk)) =
      (LoopElse, (sleep 2 (tick clk))\<lparr>polls := polls (sleep 2 (tick clk)) + n,
                                      slept := slept (sleep 2 (tick clk)) + 2 * n\<rparr>)"
    by (rule Suc.IH)
  with h show ?case
    by (auto simp: non_terminal_def tick_sleep_fields sleep_def tick_def split: sum.splits)
qed

lemma paced_step:
  "paced n (sleep 2 (tick clk)) clk' \<Longrightarrow> paced (Suc n) clk clk'"
  by (auto simp: paced_def tick_sleep_fields)

lemma paced_stop: "paced (Suc n) clk (tick clk)"
  by (simp add: paced_def tick_sleep_fields)

lemma paced_refl: "paced n clk clk"
  by (simp add: paced_def)

lemma execute_loop_paced: "paced n clk (snd (execute_loop ac qid n clk))"
proof (induction n arbitrary: clk)
  case 0
  then show ?case by (simp add: paced_refl)
next
  case (Suc n)
  from Suc.IH [of "sleep 2 (tick clk)"] show ?case
    by (auto simp: paced_stop paced_step split: sum.splits)
qed

lemma run_athena_loop_paced: "paced n clk (snd (run_athena_loop ac qid n clk))"
proof (induction n arbitrary: clk)
  case 0
  then show ?case by (simp add: paced_refl)
next
  case (Suc n)
  from Suc.IH [of "sleep 2 (tick clk)"] show ?case
    by (auto simp: paced_stop paced_step split: sum.splits)
qed

lemma drop_loop_paced: "paced n clk (snd (drop_loop ac qid n clk))"
proof (induction n arbitrary: clk)
  case 0
  then show ?case by (simp add: paced_refl)
next
  case (Suc n)
  from Suc.IH [of "sleep 2 (tick clk)"] show ?case
    by (auto simp: paced_stop paced_step split: sum.splits)
qed

lemma paced_clock0:
  "paced n clock0 clk \<Longrightarrow>
   polls clk \<le> n \<and> slept clk \<le> 2 * n \<and> (slept clk = 2 * polls clk \<or> slept clk + 2 = 2 * polls clk)"
  by (auto simp: paced_def clock0_def)

lemma execute_query_clock:
  "snd (execute_query cfg ac query database) =
     (case start_query_execution ac query
             (case database of None \<Rightarrow> GLUE_DATABASE cfg
              | Some d \<Rightarrow> if d = [] then GLUE_DATABASE cfg else d)
             (ATHENA_WORKGROUP cfg) of
        Inl e \<Rightarrow> clock0
      | Inr qid \<Rightarrow> snd (execute_loop ac qid 60 clock0))"
  by (auto simp: execute_query_def Let_def split: sum.splits prod.splits loop_exit.splits)

lemma run_athena_query_clock:
  "snd (run_athena_query cfg ac query) =
     (case start_query_execution ac query (GLUE_DATABASE cfg) (ATHENA_WORKGROUP cfg) of
        Inl e \<Rightarrow> clock0
      | Inr qid \<Rightarrow> snd (run_athena_loop ac qid 60 clock0))"
  by (auto simp: run_athena_query_def split: sum.splits prod.splits loop_exit.splits)

lemma drop_iceberg_table_clock:
  "snd (drop_iceberg_table cfg ac database table) =
     (case start_query_execution ac
             (''DROP TABLE IF EXISTS \"'' @ database @ ''\".\"'' @ table @ ''\" PURGE'')
             database (ATHENA_WORKGROUP cfg) of
        Inl e \<Rightarrow> clock0
      | Inr qid \<Rightarrow> snd (drop_loop ac qid 30 clock0))"
  by (auto simp: drop_iceberg_table_def Let_def split: sum.splits prod.splits loop_exit.splits)

lemma execute_query_paced: "paced 60 clock0 (snd (execute_query cfg ac query database))"
  by (simp add: execute_query_clock paced_refl execute_loop_paced split: sum.split)

lemma run_athena_query_paced: "paced 60 clock0 (snd (run_athena_query cfg ac query))"
  by (simp add: run_athena_query_clock paced_refl run_athena_loop_paced split: sum.split)

lemma drop_iceberg_table_paced: "paced 30 clock0 (snd (drop_iceberg_table cfg ac database table))"
  by (simp add: drop_iceberg_table_clock paced_refl drop_loop_paced split: sum.split)

lemma execute_query_exhausted:
  assumes "start_query_execution ac query
             (case database of None \<Rightarrow> GLUE_DATABASE cfg
              | Some d \<Rightarrow> if d = [] then GLUE_DATABASE cfg else d)
             (ATHENA_WORKGROUP cfg) = Inr qid"
    and "\<And>i. i < 60 \<Longrightarrow> non_terminal ac qid i"
  shows "execute_query cfg ac query database =
           (Inr (QueryError ''TIMEOUT'' ''Query timed out after 120 seconds'' qid),
            \<lparr>polls = 60, slept = 120\<rparr>)"
proof -
  from assms(2) have "execute_loop ac qid 60 clock0 =
      (LoopElse, clock0\<lparr>polls := polls clock0 + 60, slept := slept clock0 + 2 * 60\<rparr>)"
    by (intro execute_loop_exhausted) (simp add: clock0_def)
  then have "execute_loop ac qid 60 clock0 = (LoopElse, \<lparr>polls = 60, slept = 120\<rparr>)"
    by (simp add: clock0_def)
  with assms(1) show ?thesis by (simp add: execute_query_def Let_def)
qed

lemma run_athena_query_exhausted:
  assumes "start_query_execution ac query (GLUE_DATABASE cfg) (ATHENA_WORKGROUP cfg) = Inr qid"
    and "\<And>i. i < 60 \<Longrightarrow> non_terminal ac qid i"
  shows "run_athena_query cfg ac query =
           (Inl (PyExn ''Exception'' ''Athena query timed out''), \<lparr>polls = 60, slept = 120\<rparr>)"
proof -
  from assms(2) have "run_athena_loop ac qid 60 clock0 =
      (LoopElse, clock0\<lparr>polls := polls clock0 + 60, slept := slept clock0 + 2 * 60\<rparr>)"
    by (intro run_athena_loop_exhausted) (simp add: clock0_def)
  then have "run_athena_loop ac qid 60 clock0 = (LoopElse, \<lparr>polls = 60, slept = 120\<rparr>)"
    by (simp add: clock0_def)
  with assms(1) show ?thesis by (simp add: run_athena_query_def)
qed

lemma drop_iceberg_table_exhausted:
  assumes "start_query_execution ac
             (''DROP TABLE IF EXISTS \"'' @ database @ ''\".\"'' @ table @ ''\" PURGE'')
             database (ATHENA_WORKGROUP cfg) = Inr qid"
    and "\<And>i. i < 30 \<Longrightarrow> non_terminal ac qid i"
  shows "drop_iceberg_table cfg ac database table = (False, \<lparr>polls = 30, slept = 60\<rparr>)"
proof -
  from assms(2) have "drop_loop ac qid 30 clock0 =
      (LoopElse, clock0\<lparr>polls := polls clock0 + 30, slept := slept clock0 + 2 * 30\<rparr>)"
    by (intro drop_loop_exhausted) (simp add: clock0_def)
  then have "drop_loop ac qid 30 clock0 = (LoopElse, \<lparr>polls = 30, slept = 60\<rparr>)"
    by (simp add: clock0_def)
  with assms(1) show ?thesis by (simp add: drop_iceberg_table_def Let_def)
qed

lemma engine_never_terminal_fields:
  "start_query_execution engine_never_terminal q d w = Inr ''q-1''"
  "non_terminal engine_never_terminal qid i"
  by (simp_all add: engine_never_terminal_def non_terminal_def execution_in_def)

text \<open>
  C7 (as amended). The count query of the validation engine polls the execution state
  at most 60 times and sleeps 2 units after a poll, at most 120 units, as the ad-hoc
  query operation does; the drop-table statement of the teardown coordinator sleeps 2
  units after a poll too, but polls at most 30 times, at most 60 units. When the engine
  stays in a state that is not terminal, the count query gives up after 60 polls and
  120 units by raising, the drop statement after 30 polls and 60 units by answering
  \<open>False\<close>.
\<close>

theorem polling_budgets:
  "polls (snd (run_athena_query cfg ac query)) \<le> 60
   \<and> slept (snd (run_athena_query cfg ac query)) \<le> 120
   \<and> paced 60 clock0 (snd (run_athena_query cfg ac query))
   \<and> polls (snd (execute_query cfg ac query database)) \<le> 60
   \<and> slept (snd (execute_query cfg ac query database)) \<le> 120
   \<and> paced 60 clock0 (snd (execute_query cfg ac query database))
   \<and> polls (snd (drop_iceberg_table cfg ac db table)) \<le> 30
   \<and> slept (snd (drop_iceberg_table cfg ac db table)) \<le> 60
   \<and> paced 30 clock0 (snd (drop_iceberg_table cfg ac db table))
   \<and> ((\<forall>q d w. start_query_execution ac q d w = Inr qid)
        \<and> (\<forall>i. i < 60 \<longrightarrow> non_terminal ac qid i)
      \<longrightarrow> run_athena_query cfg ac query =
            (Inl (PyExn ''Exception'' ''Athena query timed out''), \<lparr>polls = 60, slept = 120\<rparr>)
        \<and> drop_iceberg_table cfg ac db table = (False, \<lparr>polls = 30, slept = 60\<rparr>))"
proof -
  note r = paced_clock0 [OF run_athena_query_paced [of cfg ac query]]
  note e = paced_clock0 [OF execute_query_paced [of cfg ac query database]]
  note d = paced_clock0 [OF drop_iceberg_table_paced [of cfg ac db table]]
  have x: "run_athena_query cfg ac query =
            (Inl (PyExn ''Exception'' ''Athena query timed out''), \<lparr>polls = 60, slept = 120\<rparr>)
        \<and> drop_iceberg_table cfg ac db table = (False, \<lparr>polls = 30, slept = 60\<rparr>)"
    if "(\<forall>q d w. start_query_execution ac q d w = Inr qid)
        \<and> (\<forall>i. i < 60 \<longrightarrow> non_terminal ac qid i)"
    using that by (simp add: run_athena_query_exhausted drop_iceberg_table_exhausted)
  show ?thesis
  proof (intro conjI impI)
    show "polls (snd (run_athena_query cfg ac query)) \<le> 60" using r by simp
    show "slept (snd (run_athena_query cfg ac query)) \<le> 120" using r by simp
    show "paced 60 clock0 (snd (run_athena_query cfg ac query))"
      by (rule run_athena_query_paced)
    show "polls (snd (execute_query cfg ac query database)) \<le> 60" using e by simp
    show "slept (snd (execute_query cfg ac query database)) \<le> 120" using e by simp
    show "paced 60 clock0 (snd (execute_query cfg ac query database))"
      by (rule execute_query_paced)
    show "polls (snd (drop_iceberg_table cfg ac db table)) \<le> 30" using d by simp
    show "slept (snd (drop_iceberg_table cfg ac db table)) \<le> 60" using d by simp
    show "paced 30 clock0 (snd (drop_iceberg_table cfg ac db table))"
      by (rule drop_iceberg_table_paced)
  next
    assume h: "(\<forall>q d w. start_query_execution ac q d w = Inr qid)
        \<and> (\<forall>i. i < 60 \<longrightarrow> non_terminal ac qid i)"
    from x [OF h] show "run_athena_query cfg ac query =
            (Inl (PyExn ''Exception'' ''Athena query timed out''), \<lparr>polls = 60, slept = 120\<rparr>)"
      by (rule conjunct1)
    from x [OF h] show "drop_iceberg_table cfg ac db table = (False, \<lparr>polls = 30, slept = 60\<rparr>)"
      by (rule conjunct2)
  qed
qed

theorem polling_budgets_witness:
  "run_athena_query cfg0 engine_never_terminal ''SELECT COUNT(*) as cnt FROM t'' =
     (Inl (PyExn ''Exception'' ''Athena query timed out''), \<lparr>polls = 60, slept = 120\<rparr>)
   \<and> drop_iceberg_table cfg0 engine_never_terminal ''archive'' ''orders'' =
       (False, \<lparr>polls = 30, slept = 60\<rparr>)"
proof -
  have h: "(\<forall>q d w. start_query_execution engine_never_terminal q d w = Inr ''q-1'')
        \<and> (\<forall>i. i < 60 \<longrightarrow> non_terminal engine_never_terminal ''q-1'' i)"
    by (simp add: engine_never_terminal_fields)
  from h polling_budgets
         [of cfg0 engine_never_terminal "''SELECT COUNT(*) as cnt FROM t''" None
             "''archive''" "''orders''" "''q-1''"]
  show ?thesis by blast
qed

theorem polling_budgets_counterexample:
  "run_athena_query cfg0 engine_late ''SELECT COUNT(*) as cnt FROM t'' =
     (Inr [], \<lparr>polls = 31, slept = 60\<rparr>)
   \<and> drop_iceberg_table cfg0 engine_late ''archive'' ''orders'' =
       (False, \<lparr>polls = 30, slept = 60\<rparr>)"
  by code_simp

text \<open>
  C8 (as amended). When the engine accepts the query and stays in a state that is not
  terminal for the whole budget of 60 polls, the ad-hoc query operation
  (\<open>_execute_query\<close>) returns a result with status \<open>TIMEOUT\<close>, which is not \<open>FAILED\<close>,
  and raises nothing; the count query of the validation engine (\<open>_run_athena_query\<close>)
  raises \<open>Exception("Athena query timed out")\<close> instead.
\<close>

theorem timeout_is_reported:
  assumes "\<And>d. start_query_execution ac query d (ATHENA_WORKGROUP cfg) = Inr qid"
    and "\<And>i. i < 60 \<Longrightarrow> non_terminal ac qid i"
  shows "fst (execute_query cfg ac query database) =
           Inr (QueryError ''TIMEOUT'' ''Query timed out after 120 seconds'' qid)
       \<and> (\<exists>r. fst (execute_query cfg ac query database) = Inr r
              \<and> qr_status r = ''TIMEOUT'' \<and> qr_status r \<noteq> ''FAILED'')
       \<and> fst (run_athena_query cfg ac query) =
           Inl (PyExn ''Exception'' ''Athena query timed out'')"
proof -
  have e: "execute_query cfg ac query database =
           (Inr (QueryError ''TIMEOUT'' ''Query timed out after 120 seconds'' qid),
            \<lparr>polls = 60, slept = 120\<rparr>)"
    using assms by (intro execute_query_exhausted) simp_all
  have r: "run_athena_query cfg ac query =
           (Inl (PyExn ''Exception'' ''Athena query timed out''), \<lparr>polls = 60, slept = 120\<rparr>)"
    using assms by (intro run_athena_query_exhausted) simp_all
  from e r show ?thesis by simp
qed

theorem timeout_is_reported_witness:
  "fst (execute_query cfg0 engine_never_terminal ''SELECT 1'' None) =
     Inr (QueryError ''TIMEOUT'' ''Query timed out after 120 seconds'' ''q-1'')
   \<and> fst (run_athena_query cfg0 engine_never_terminal ''SELECT 1'') =
       Inl (PyExn ''Exception'' ''Athena query timed out'')"
proof -
  have s: "\<And>d. start_query_execution engine_never_terminal ''SELECT 1'' d (ATHENA_WORKGROUP cfg0)
             = Inr ''q-1''"
    by (simp add: engine_never_terminal_fields)
  have n: "\<And>i. i < 60 \<Longrightarrow> non_terminal engine_never_terminal ''q-1'' i"
    by (simp add: engine_never_terminal_fields)
  from timeout_is_reported [of engine_never_terminal "''SELECT 1''" cfg0 "''q-1''" None, OF s n]
  show ?thesis by blast
qed

theorem timeout_raises_counterexample:
  "fst (run_athena_query cfg0 engine_never_terminal ''SELECT 1'') =
     Inl (PyExn ''Exception'' ''Athena query timed out'')"
  by code_simp

section \<open>The steps of the teardown\<close>

text \<open>
  C9. Every removal step of the teardown is to run and to report its own outcome,
  whatever the others did. The drop statement and the removal of the catalog entry do
  so: when both fail, their entry is \<open>FAILED\<close>, the ledger deletion still runs and
  the answer lists all entries with the status \<open>PARTIAL\<close>. The prefix deletions and
  the ledger deletion do not: when the listing of the warehouse prefix is refused after
  the two raw objects have been deleted, the handler answers 500 with the message of the
  exception, lists no step, and runs none of the later ones.
\<close>

theorem teardown_aborts_on_store_failure:
  "delete_s3_prefix cfg0 store_warehouse_denied ''sales/orders/raw/'' = Inr 2
   \<and> teardown_handler cfg0 store_warehouse_denied engine_never_terminal catalog_absent
         ledger_one_job teardown_request =
       \<lparr>statusCode = 500, resp_body = ErrorBody ''AccessDenied''\<rparr>
   \<and> teardown_handler cfg0 store_one_object engine_never_terminal catalog_denied
         ledger_one_job teardown_request =
       \<lparr>statusCode = 200,
        resp_body = ResultsBody
          \<lparr>res_database = ''sales'', res_table = ''orders'',
           res_steps =
             [S3Step ''delete_s3_raw'' ''sales/orders/raw/'' 1 ''SUCCESS'',
              S3Step ''delete_s3_warehouse'' ''warehouse/sales/orders/'' 1 ''SUCCESS'',
              CatalogStep ''delete_catalog_table'' False False ''FAILED'',
              MetadataStep ''delete_metadata'' 1 ''SUCCESS''],
           res_status = ''PARTIAL''\<rparr>\<rparr>"
  by code_simp

section \<open>The record of a job\<close>

lemma calculate_duration_returns:
  "calculate_duration env start_time = Inr duration \<Longrightarrow> \<exists>s. start_time = JStr s"
  by (cases start_time) (simp_all add: calculate_duration_def)

lemma calculate_duration_str:
  "\<exists>duration. calculate_duration env (JStr s) = Inr duration"
  by (simp add: calculate_duration_def split: option.splits prod.splits)

lemma log_success_item:
  assumes "log_success env event = Inr (item, resp)"
  shows "\<exists>duration validation_result.
     calculate_duration env (dict_get event ''start_time'' (JStr (now_iso env 0))) = Inr duration
     \<and> dict_get event ''validation_result'' (JDict []) = JDict validation_result
     \<and> put_item env item = Inr ()
     \<and> resp = JDict [(''status'', JStr ''SUCCESS''),
                      (''job_id'', dict_get event ''job_id'' (JStr (uuid4 env)))]
     \<and> item = convert_floats (JDict
          [(''job_id'', dict_get event ''job_id'' (JStr (uuid4 env))),
           (''file_name'', dict_get event ''file_name'' (JStr ''unknown'')),
           (''table_name'', dict_get event ''table'' (JStr ''unknown'')),
           (''database_name'', dict_get event ''database'' (JStr ''unknown'')),
           (''archived_by'', dict_get event ''email'' (JStr ''unknown'')),
           (''start_time'', dict_get event ''start_time'' (JStr (now_iso env 0))),
           (''end_time'', JStr (now_iso env 1)),
           (''duration'', JStr duration),
           (''validation_status'',
              dict_get validation_result ''validation_status'' (JStr ''PASSED'')),
           (''source_row_count'', dict_get event ''source_row_count'' (JInt 0)),
           (''target_row_count'', dict_get validation_result ''target_row_count'' (JInt 0)),
           (''schema_match'', dict_get validation_result ''schema_match'' (JBool True)),
           (''checksum_match'', dict_get validation_result ''checksum_match'' (JBool True)),
           (''error_message'', JStr []),
           (''status'', JStr ''SUCCESS'')])"
  using assms unfolding log_success_def Let_def
  by (auto split: sum.splits jval.splits)

lemma log_failure_item:
  assumes "log_failure env event = Inr (item, resp)"
  shows "\<exists>duration error.
     calculate_duration env (dict_get event ''start_time'' (JStr (now_iso env 0))) = Inr duration
     \<and> dict_get event ''error'' (JDict []) = JDict error
     \<and> put_item env item = Inr ()
     \<and> item = convert_floats (JDict
          [(''job_id'', dict_get event ''job_id'' (JStr (uuid4 env))),
           (''file_name'', dict_get event ''file_name'' (JStr ''unknown'')),
           (''table_name'', dict_get event ''table'' (JStr ''unknown'')),
           (''database_name'', dict_get event ''database'' (JStr ''unknown'')),
           (''archived_by'', dict_get event ''email'' (JStr ''unknown'')),
           (''start_time'', dict_get event ''start_time'' (JStr (now_iso env 0))),
           (''end_time'', JStr (now_iso env 1)),
           (''duration'', JStr duration),
           (''validation_status'', JStr ''FAILED''),
           (''error_message'',
              JStr (take 1000
                (py_str env (dict_get error ''Cause''
                   (dict_get error ''Error'' (JStr (py_str env (JDict error)))))))),
           (''status'', JStr ''FAILED'')])"
  using assms unfolding log_failure_def Let_def
  by (auto split: sum.splits jval.splits)

lemma log_success_returns:
  assumes "dict_get event ''start_time'' (JStr (now_iso env 0)) = JStr s"
    and "dict_get event ''validation_result'' (JDict []) = JDict validation_result"
    and "\<And>i. put_item env i = Inr ()"
  shows "\<exists>item resp. log_success env event = Inr (item, resp)"
proof -
  obtain duration where "calculate_duration env (JStr s) = Inr duration"
    using calculate_duration_str by blast
  with assms show ?thesis
    unfolding log_success_def Let_def by simp
qed

text \<open>
  C2. Whenever the success-logging operation persists a record, the record has the
  status \<open>SUCCESS\<close>, and its \<open>validation_status\<close> is the one carried in the
  \<open>validation_result\<close> of the event (\<open>PASSED\<close> when that key is missing): a verdict
  \<open>FAILED\<close> is recorded and leaves the status \<open>SUCCESS\<close>. Whenever the
  failure-logging operation persists a record, the record has the status \<open>FAILED\<close>.
  The success-logging operation does persist a record when the start time of the event
  is a string, its validation result a dictionary, and the table accepts the item.
\<close>

theorem job_status_recorded:
  "(\<forall>item resp. log_success env event = Inr (item, resp) \<longrightarrow>
      (\<exists>kvs validation_result.
          item = JDict kvs
        \<and> dict_get event ''validation_result'' (JDict []) = JDict validation_result
        \<and> map_of kvs ''status'' = Some (JStr ''SUCCESS'')
        \<and> map_of kvs ''validation_status'' =
            Some (convert_floats
                    (dict_get validation_result ''validation_status'' (JStr ''PASSED'')))
        \<and> put_item env item = Inr ()
        \<and> map_of (case resp of JDict d \<Rightarrow> d | _ \<Rightarrow> []) ''status'' = Some (JStr ''SUCCESS'')))
   \<and> (\<forall>item resp. log_failure env event = Inr (item, resp) \<longrightarrow>
        (\<exists>kvs. item = JDict kvs
           \<and> map_of kvs ''status'' = Some (JStr ''FAILED'')
           \<and> map_of kvs ''validation_status'' = Some (JStr ''FAILED'')
           \<and> put_item env item = Inr ()))
   \<and> ((\<exists>s. dict_get event ''start_time'' (JStr (now_iso env 0)) = JStr s)
        \<and> (\<exists>validation_result.
              dict_get event ''validation_result'' (JDict []) = JDict validation_result)
        \<and> (\<forall>i. put_item env i = Inr ())
      \<longrightarrow> (\<exists>item resp. log_success env event = Inr (item, resp)))"
proof (intro conjI allI impI)
  fix item resp
  assume "log_success env event = Inr (item, resp)"
  from log_success_item [OF this] obtain duration validation_result where
    v: "dict_get event ''validation_result'' (JDict []) = JDict validation_result"
    and p: "put_item env item = Inr ()"
    and r: "resp = JDict [(''status'', JStr ''SUCCESS''),
                         (''job_id'', dict_get event ''job_id'' (JStr (uuid4 env)))]"
    and i: "item = convert_floats (JDict
          [(''job_id'', dict_get event ''job_id'' (JStr (uuid4 env))),
           (''file_name'', dict_get event ''file_name'' (JStr ''unknown'')),
           (''table_name'', dict_get event ''table'' (JStr ''unknown'')),
           (''database_name'', dict_get event ''database'' (JStr ''unknown'')),
           (''archived_by'', dict_get event ''email'' (JStr ''unknown'')),
           (''start_time'', dict_get event ''start_time'' (JStr (now_iso env 0))),
           (''end_time'', JStr (now_iso env 1)),
           (''duration'', JStr duration),
           (''validation_status'',
              dict_get validation_result ''validation_status'' (JStr ''PASSED'')),
           (''source_row_count'', dict_get event ''source_row_count'' (JInt 0)),
           (''target_row_count'', dict_get validation_result ''target_row_count'' (JInt 0)),
           (''schema_match'', dict_get validation_result ''schema_match'' (JBool True)),
           (''checksum_match'', dict_get validation_result ''checksum_match'' (JBool True)),
           (''error_message'', JStr []),
           (''status'', JStr ''SUCCESS'')])"
    by blast
  from i obtain kvs where k: "item = JDict kvs"
    and s: "map_of kvs ''status'' = Some (JStr ''SUCCESS'')"
    and vs: "map_of kvs ''validation_status'' =
            Some (convert_floats
                    (dict_get validation_result ''validation_status'' (JStr ''PASSED'')))"
    by simp
  from r have "map_of (case resp of JDict d \<Rightarrow> d | _ \<Rightarrow> []) ''status'' = Some (JStr ''SUCCESS'')"
    by simp
  with k v s vs p show "\<exists>kvs validation_result.
          item = JDict kvs
        \<and> dict_get event ''validation_result'' (JDict []) = JDict validation_result
        \<and> map_of kvs ''status'' = Some (JStr ''SUCCESS'')
        \<and> map_of kvs ''validation_status'' =
            Some (convert_floats
                    (dict_get validation_result ''validation_status'' (JStr ''PASSED'')))
        \<and> put_item env item = Inr ()
        \<and> map_of (case resp of JDict d \<Rightarrow> d | _ \<Rightarrow> []) ''status'' = Some (JStr ''SUCCESS'')"
    by blast
next
  fix item resp
  assume "log_failure env event = Inr (item, resp)"
  from log_failure_item [OF this] obtain duration error where
    p: "put_item env item = Inr ()"
    and i: "item = convert_floats (JDict
          [(''job_id'', dict_get event ''job_id'' (JStr (uuid4 env))),
           (''file_name'', dict_get event ''file_name'' (JStr ''unknown'')),
           (''table_name'', dict_get event ''table'' (JStr ''unknown'')),
           (''database_name'', dict_get event ''database'' (JStr ''unknown'')),
           (''archived_by'', dict_get event ''email'' (JStr ''unknown'')),
           (''start_time'', dict_get event ''start_time'' (JStr (now_iso env 0))),
           (''end_time'', JStr (now_iso env 1)),
           (''duration'', JStr duration),
           (''validation_status'', JStr ''FAILED''),
           (''error_message'',
              JStr (take 1000
                (py_str env (dict_get error ''Cause''
                   (dict_get error ''Error'' (JStr (py_str env (JDict error)))))))),
           (''status'', JStr ''FAILED'')])"
    by blast
  from i obtain kvs where "item = JDict kvs"
    and "map_of kvs ''status'' = Some (JStr ''FAILED'')"
    and "map_of kvs ''validation_status'' = Some (JStr ''FAILED'')"
    by simp
  with p show "\<exists>kvs. item = JDict kvs
           \<and> map_of kvs ''status'' = Some (JStr ''FAILED'')
           \<and> map_of kvs ''validation_status'' = Some (JStr ''FAILED'')
           \<and> put_item env item = Inr ()"
    by blast
next
  assume "(\<exists>s. dict_get event ''start_time'' (JStr (now_iso env 0)) = JStr s)
        \<and> (\<exists>validation_result.
              dict_get event ''validation_result'' (JDict []) = JDict validation_result)
        \<and> (\<forall>i. put_item env i = Inr ())"
  then show "\<exists>item resp. log_success env event = Inr (item, resp)"
    using log_success_returns by blast
qed

theorem job_status_recorded_witness:
  "log_success logger0 validation_failed_event =
     Inr (JDict
           [(''job_id'', JStr ''job-1''), (''file_name'', JStr ''orders.csv''),
            (''table_name'', JStr ''orders''), (''database_name'', JStr ''sales''),
            (''archived_by'', JStr ''ops@example.org''),
            (''start_time'', JStr ''2024-01-01T00:00:00Z''),
            (''end_time'', JStr ''2024-01-01T00:01:05+00:00''),
            (''duration'', JStr ''1m 5s''),
            (''validation_status'', JStr ''FAILED''),
            (''source_row_count'', JInt 5), (''target_row_count'', JInt 3),
            (''schema_match'', JBool True), (''checksum_match'', JBool True),
            (''error_message'', JStr []), (''status'', JStr ''SUCCESS'')],
          JDict [(''status'', JStr ''SUCCESS''), (''job_id'', JStr ''job-1'')])
   \<and> (\<exists>item resp kvs. log_success logger0 validation_failed_event = Inr (item, resp)
          \<and> item = JDict kvs
          \<and> map_of kvs ''validation_status'' = Some (JStr ''FAILED'')
          \<and> map_of kvs ''status'' = Some (JStr ''SUCCESS''))
   \<and> (\<exists>item resp kvs. log_failure logger0 execution_failed_event = Inr (item, resp)
          \<and> item = JDict kvs
          \<and> map_of kvs ''status'' = Some (JStr ''FAILED''))"
proof -
  let ?item = "JDict
           [(''job_id'', JStr ''job-1''), (''file_name'', JStr ''orders.csv''),
            (''table_name'', JStr ''orders''), (''database_name'', JStr ''sales''),
            (''archived_by'', JStr ''ops@example.org''),
            (''start_time'', JStr ''2024-01-01T00:00:00Z''),
            (''end_time'', JStr ''2024-01-01T00:01:05+00:00''),
            (''duration'', JStr ''1m 5s''),
            (''validation_status'', JStr ''FAILED''),
            (''source_row_count'', JInt 5), (''target_row_count'', JInt 3),
            (''schema_match'', JBool True), (''checksum_match'', JBool True),
            (''error_message'', JStr []), (''status'', JStr ''SUCCESS'')]"
  let ?resp = "JDict [(''status'', JStr ''SUCCESS''), (''job_id'', JStr ''job-1'')]"
  let ?fitem = "JDict
       [(''job_id'', JStr ''job-2''), (''file_name'', JStr ''unknown''),
        (''table_name'', JStr ''orders''),
        (''database_name'', JStr ''sales''),
        (''archived_by'', JStr ''unknown''),
        (''start_time'', JStr ''2024-01-01T00:00:00Z''),
        (''end_time'', JStr ''2024-01-01T00:01:05+00:00''),
        (''duration'', JStr ''1m 5s''),
        (''validation_status'', JStr ''FAILED''),
        (''error_message'', JStr ''Unsupported file type: doc''),
        (''status'', JStr ''FAILED'')]"
  let ?fresp = "JDict
       [(''status'', JStr ''FAILED''), (''job_id'', JStr ''job-2''),
        (''error'', JStr ''Unsupported file type: doc'')]"
  have e: "log_success logger0 validation_failed_event = Inr (?item, ?resp)"
    by code_simp
  have f: "log_failure logger0 execution_failed_event = Inr (?fitem, ?fresp)"
    by code_simp
  have v: "dict_get validation_failed_event ''validation_result'' (JDict []) =
             JDict [(''target_row_count'', JInt 3), (''schema_match'', JBool True),
                    (''checksum_match'', JBool True), (''validation_status'', JStr ''FAILED'')]"
    by (simp add: validation_failed_event_def dict_get_def)
  from job_status_recorded [of logger0 validation_failed_event] e
  obtain kvs validation_result where
    k: "?item = JDict kvs"
    and "dict_get validation_failed_event ''validation_result'' (JDict []) = JDict validation_result"
    and s: "map_of kvs ''status'' = Some (JStr ''SUCCESS'')"
    and "map_of kvs ''validation_status'' =
            Some (convert_floats
                    (dict_get validation_result ''validation_status'' (JStr ''PASSED'')))"
    by blast
  with v have vs: "map_of kvs ''validation_status'' = Some (JStr ''FAILED'')"
    by (auto simp: dict_get_def)
  from e k s vs have w1: "\<exists>item resp kvs. log_success logger0 validation_failed_event = Inr (item, resp)
          \<and> item = JDict kvs
          \<and> map_of kvs ''validation_status'' = Some (JStr ''FAILED'')
          \<and> map_of kvs ''status'' = Some (JStr ''SUCCESS'')"
    by blast
  from job_status_recorded [of logger0 execution_failed_event] f
  obtain fkvs where "?fitem = JDict fkvs" "map_of fkvs ''status'' = Some (JStr ''FAILED'')"
    by blast
  with f have w2: "\<exists>item resp kvs. log_failure logger0 execution_failed_event = Inr (item, resp)
          \<and> item = JDict kvs
          \<and> map_of kvs ''status'' = Some (JStr ''FAILED'')"
    by blast
  from e w1 w2 show ?thesis by blast
qed

end
